theory Spec2Isabelle
  imports Main "HOL-Library.Word"
begin

section \<open>Library functions taken as parameters\<close>

text \<open>
  The Go code calls two library functions whose results it only ever compares or
  concatenates: \<^verbatim>\<open>hex.EncodeToString(sha256.Sum256([]byte(s)))\<close> and
  \<^verbatim>\<open>t.Format(time.RFC3339Nano)\<close>. Both are parameters of the model, written \<open>H\<close>
  (from a string to the hex digest) and \<open>F\<close> (from an instant to its rendering).
  Every general theorem below holds for all \<open>H\<close> and \<open>F\<close>.
\<close>

type_synonym sha256hex = "string \<Rightarrow> string"

section \<open>src/core/merkle.go\<close>

definition combineHashes :: "sha256hex \<Rightarrow> string \<Rightarrow> string \<Rightarrow> string" where
  "combineHashes H hash1 hash2 = H (hash1 @ hash2)"

text \<open>
  \<^verbatim>\<open>if len(hashes)%2 != 0 { hashes = append(hashes, hashes[len(hashes)-1]) }\<close>.
  On the empty slice the length is even and nothing is read.
\<close>

definition dup_last :: "string list \<Rightarrow> string list" where
  "dup_last hashes = (if length hashes mod 2 \<noteq> 0 then hashes @ [last hashes] else hashes)"

text \<open>
  \<^verbatim>\<open>for i := 0; i < len(hashes); i += 2 { newLevel = append(newLevel, combineHashes(hashes[i], hashes[i+1])) }\<close>.
  Both callers run the loop on a level of even length (after \<open>dup_last\<close>), so the
  second equation, where \<^verbatim>\<open>hashes[i+1]\<close> would be read out of range, is never reached
  (lemmas \<open>even_length_dup_last\<close> and \<open>length_combine_pairs\<close> below).
\<close>

fun combine_pairs :: "sha256hex \<Rightarrow> string list \<Rightarrow> string list" where
  "combine_pairs H [] = []"
| "combine_pairs H [a] = []"
| "combine_pairs H (a # b # rest) = combineHashes H a b # combine_pairs H rest"

text \<open>
  \<open>buildMerkleTree\<close> calls itself on the next level until one hash is left. On the
  empty slice the Go function calls itself on the empty slice again and never returns;
  that is the value \<open>None\<close>. \<open>BuildMerkleRoot\<close> returns before it could pass an
  empty slice.
\<close>

function buildMerkleTree :: "sha256hex \<Rightarrow> string list \<Rightarrow> string option" where
  "buildMerkleTree H hashes =
     (if hashes = [] then None
      else if length hashes = 1 then Some (hashes ! 0)
      else buildMerkleTree H (combine_pairs H (dup_last hashes)))"
  by pat_completeness auto
termination
proof (relation "measure (\<lambda>(H, hashes). length hashes)")
  fix H :: sha256hex and hashes :: "string list"
  assume "hashes \<noteq> []" "length hashes \<noteq> 1"
  then have "1 < length hashes"
    by (cases hashes) auto
  moreover have "length (combine_pairs H ys) = length ys div 2" for ys
    by (induction H ys rule: combine_pairs.induct) simp_all
  ultimately have "length (combine_pairs H (dup_last hashes)) < length hashes"
    by (simp add: dup_last_def) arith
  then show "((H, combine_pairs H (dup_last hashes)), (H, hashes))
               \<in> measure (\<lambda>(H, hashes). length hashes)"
    by simp
qed simp

declare buildMerkleTree.simps [simp del]

definition BuildMerkleRoot :: "sha256hex \<Rightarrow> string list \<Rightarrow> string" where
  "BuildMerkleRoot H txIDs =
     (if length txIDs = 0 then [] else the (buildMerkleTree H txIDs))"

text \<open>
  \<open>VerifyTransactionInclusion\<close>: \<open>index\<close> is a Go \<^verbatim>\<open>int\<close>; \<^verbatim>\<open>(index>>i)&1\<close> is
  bit \<open>i\<close> of it, \<open>(index div 2 ^ i) mod 2\<close> (the shift of a signed value is
  arithmetic, as \<open>div\<close> on \<open>int\<close> is).
\<close>

fun verify_loop :: "sha256hex \<Rightarrow> int \<Rightarrow> nat \<Rightarrow> string \<Rightarrow> string list \<Rightarrow> string" where
  "verify_loop H index i currentHash [] = currentHash"
| "verify_loop H index i currentHash (siblingHash # rest) =
     verify_loop H index (Suc i)
       (if (index div 2 ^ i) mod 2 = 0
        then combineHashes H currentHash siblingHash
        else combineHashes H siblingHash currentHash)
       rest"

definition VerifyTransactionInclusion ::
  "sha256hex \<Rightarrow> string \<Rightarrow> string \<Rightarrow> string list \<Rightarrow> int \<Rightarrow> bool" where
  "VerifyTransactionInclusion H txID merkleRoot proof index =
     (verify_loop H index 0 txID proof = merkleRoot)"

text \<open>
  The loop of \<open>GenerateMerkleProof\<close>, on the current level, the current index and the
  proof collected so far. The index is not negative here (the guard before the loop).
\<close>

function proof_loop :: "sha256hex \<Rightarrow> string list \<Rightarrow> nat \<Rightarrow> string list \<Rightarrow> string list" where
  "proof_loop H currentLevel currentIndex proof =
     (if length currentLevel > 1 then
        (let level = dup_last currentLevel;
             siblingIndex = (if currentIndex mod 2 = 0 then int currentIndex + 1
                             else int currentIndex - 1);
             proof' = (if siblingIndex < int (length level)
                       then proof @ [level ! nat siblingIndex] else proof)
         in proof_loop H (combine_pairs H level) (currentIndex div 2) proof')
      else proof)"
  by pat_completeness auto
termination
proof (relation "measure (\<lambda>(H, level, i, p). length level)")
  fix H :: sha256hex and currentLevel level :: "string list"
  assume "1 < length currentLevel" and level: "level = dup_last currentLevel"
  moreover have "length (combine_pairs H ys) = length ys div 2" for ys
    by (induction H ys rule: combine_pairs.induct) simp_all
  ultimately have "length (combine_pairs H level) < length currentLevel"
    by (simp add: dup_last_def) arith
  then show "((H, combine_pairs H level, i, p), (H, currentLevel, j, q))
               \<in> measure (\<lambda>(H, level, i, p). length level)" for i j :: nat and p q :: "string list"
    by simp
qed simp

declare proof_loop.simps [simp del]

definition GenerateMerkleProof :: "sha256hex \<Rightarrow> string list \<Rightarrow> int \<Rightarrow> string list" where
  "GenerateMerkleProof H txIDs index =
     (if index < 0 \<or> index \<ge> int (length txIDs) then []
      else proof_loop H txIDs (nat index) [])"

section \<open>Errors\<close>

text \<open>
  One constructor for each \<^verbatim>\<open>fmt.Errorf\<close> of the modelled functions (the numbers a
  message prints are kept as arguments, an error that wraps another keeps it) and one
  for each run-time panic the modelled code can raise. A Go function that returns
  \<^verbatim>\<open>error\<close> returns \<open>error option\<close> here, \<open>None\<close> for \<^verbatim>\<open>nil\<close>.
\<close>

type_synonym uint64 = "64 word"

datatype error =
    ToAddressRequired
  | AmountMustBePositive
  | FromAddressRequired
  | FeeMustBePositive
  | MustBeSigned
  | IDMustBeSet
  | IDMismatch
  | GenesisPreviousHash
  | BlockHashEmpty
  | BlockHashInvalid
  | MerkleRootMismatch string string
  | TransactionInvalid nat error
  | PreviousHashMismatch
  | InvalidBlockIndex
  | InvalidBlock error
  | FailedToApplyTransaction error
  | FailedToApplyTransactionOf string error
  | SenderHasNoUTXOs
  | InsufficientBalance uint64 uint64
  | AlreadyInMempool
  | BlockHashIncorrect string string
  | DifficultyNotMet int
  | InvalidAddressHex
  | InvalidPublicKeyLength nat
  | InvalidPublicKeyFormat
  | FailedToParsePublicKey
  | InvalidSenderAddress error
  | SignatureVerificationFailed error
  | HttpInvalidTransaction error
  | HttpInvalidSignature
  | HttpTransactionValidationFailed error
  | StoreError
  | PanicSliceBounds
  | PanicIndexOutOfRange
  | PanicNilDereference
  | PanicNegativeRepeatCount

section \<open>src/types/transaction.go: the Transaction type\<close>

text \<open>
  An instant (\<^verbatim>\<open>time.Time\<close>) is the number of nanoseconds since the Unix epoch; the
  code only stores instants, compares them and renders them with \<open>F\<close>.
\<close>

type_synonym time = int
type_synonym rfc3339nano = "time \<Rightarrow> string"

record Transaction =
  tx_ID :: string
  tx_From :: string
  tx_To :: string
  tx_Amount :: uint64
  tx_Fee :: uint64
  tx_Signature :: string
  tx_Timestamp :: time

text \<open>The verb \<^verbatim>\<open>%d\<close> of \<^verbatim>\<open>fmt.Sprintf\<close>: decimal digits, a minus sign first if negative.\<close>

definition digit :: "nat \<Rightarrow> char" where
  "digit d = ''0123456789'' ! d"

function dec :: "nat \<Rightarrow> string" where
  "dec n = (if n < 10 then [digit n] else dec (n div 10) @ [digit (n mod 10)])"
  by pat_completeness auto
termination
  by (relation "measure id") auto

declare dec.simps [simp del]

definition dec_int :: "int \<Rightarrow> string" where
  "dec_int i = (if i < 0 then CHR ''-'' # dec (nat (- i)) else dec (nat i))"

definition tx_Hash :: "sha256hex \<Rightarrow> rfc3339nano \<Rightarrow> Transaction \<Rightarrow> string" where
  "tx_Hash H F tx =
     H (tx_From tx @ tx_To tx @ dec (unat (tx_Amount tx)) @ dec (unat (tx_Fee tx))
        @ tx_Signature tx @ F (tx_Timestamp tx))"

definition IsCoinbase :: "Transaction \<Rightarrow> bool" where
  "IsCoinbase tx = (tx_From tx = [] \<and> tx_Signature tx = ''coinbase'')"

definition tx_Validate :: "sha256hex \<Rightarrow> rfc3339nano \<Rightarrow> Transaction \<Rightarrow> error option" where
  "tx_Validate H F tx =
     (if IsCoinbase tx then
        (if tx_To tx = [] then Some ToAddressRequired
         else if tx_Amount tx = 0 then Some AmountMustBePositive
         else if tx_ID tx = [] then Some IDMustBeSet
         else if tx_ID tx \<noteq> tx_Hash H F tx then Some IDMismatch
         else None)
      else if tx_From tx = [] then Some FromAddressRequired
      else if tx_To tx = [] then Some ToAddressRequired
      else if tx_Amount tx = 0 then Some AmountMustBePositive
      else if tx_Fee tx = 0 then Some FeeMustBePositive
      else if tx_Signature tx = [] then Some MustBeSigned
      else if tx_ID tx = [] then Some IDMustBeSet
      else if tx_ID tx \<noteq> tx_Hash H F tx then Some IDMismatch
      else None)"

text \<open>\<open>NewTransaction\<close> reads the clock; \<open>SetSignature\<close> stores the signature and the id.\<close>

definition NewTransaction :: "time \<Rightarrow> string \<Rightarrow> string \<Rightarrow> uint64 \<Rightarrow> uint64 \<Rightarrow> Transaction" where
  "NewTransaction now from to amount fee =
     \<lparr>tx_ID = [], tx_From = from, tx_To = to, tx_Amount = amount, tx_Fee = fee,
      tx_Signature = [], tx_Timestamp = now\<rparr>"

definition SetSignature :: "sha256hex \<Rightarrow> rfc3339nano \<Rightarrow> string \<Rightarrow> Transaction \<Rightarrow> Transaction" where
  "SetSignature H F signature tx =
     (let tx = tx\<lparr>tx_Signature := signature\<rparr> in tx\<lparr>tx_ID := tx_Hash H F tx\<rparr>)"

text \<open>\<open>Total\<close> adds two \<^verbatim>\<open>uint64\<close>: the sum wraps around at \<open>2 ^ 64\<close>.\<close>

definition Total :: "Transaction \<Rightarrow> uint64" where
  "Total tx = tx_Amount tx + tx_Fee tx"

text \<open>\<open>NewCoinbaseTransaction\<close> reads the clock; \<open>now\<close> is what \<^verbatim>\<open>time.Now().UTC()\<close> returned.\<close>

definition NewCoinbaseTransaction ::
  "sha256hex \<Rightarrow> rfc3339nano \<Rightarrow> time \<Rightarrow> string \<Rightarrow> uint64 \<Rightarrow> Transaction" where
  "NewCoinbaseTransaction H F now to amount =
     (let tx = \<lparr>tx_ID = [], tx_From = [], tx_To = to, tx_Amount = amount, tx_Fee = 45,
                tx_Signature = ''coinbase'', tx_Timestamp = now\<rparr>
      in tx\<lparr>tx_ID := tx_Hash H F tx\<rparr>)"

section \<open>src/unnamed/part_000: the Block type of package core\<close>

record Block =
  b_Index :: uint64
  b_Timestamp :: time
  b_Transactions :: "Transaction list"
  b_Nonce :: uint64
  b_PreviousHash :: string
  b_MerkleRoot :: string
  b_Hash :: string
  b_Difficulty :: int

definition ComputeHash :: "sha256hex \<Rightarrow> rfc3339nano \<Rightarrow> Block \<Rightarrow> string" where
  "ComputeHash H F b =
     H (dec (unat (b_Index b)) @ F (b_Timestamp b) @ b_MerkleRoot b @ b_PreviousHash b
        @ dec (unat (b_Nonce b)) @ dec_int (b_Difficulty b))"

definition SetHash :: "sha256hex \<Rightarrow> rfc3339nano \<Rightarrow> Block \<Rightarrow> Block" where
  "SetHash H F b = b\<lparr>b_Hash := ComputeHash H F b\<rparr>"

definition ComputeMerkleRoot :: "sha256hex \<Rightarrow> Block \<Rightarrow> string" where
  "ComputeMerkleRoot H b =
     (if length (b_Transactions b) = 0 then []
      else BuildMerkleRoot H (map tx_ID (b_Transactions b)))"

text \<open>\<open>NewBlock\<close> reads the clock too; the hash field is left empty.\<close>

definition NewBlock ::
  "sha256hex \<Rightarrow> time \<Rightarrow> uint64 \<Rightarrow> Transaction list \<Rightarrow> string \<Rightarrow> int \<Rightarrow> Block" where
  "NewBlock H now index transactions previousHash difficulty =
     (let block = \<lparr>b_Index = index, b_Timestamp = now, b_Transactions = transactions,
                   b_Nonce = 0, b_PreviousHash = previousHash, b_MerkleRoot = [],
                   b_Hash = [], b_Difficulty = difficulty\<rparr>
      in block\<lparr>b_MerkleRoot := ComputeMerkleRoot H block\<rparr>)"

text \<open>The loop of \<open>Validate\<close> over the transactions, \<open>i\<close> the position reached.\<close>

fun validate_transactions ::
  "sha256hex \<Rightarrow> rfc3339nano \<Rightarrow> nat \<Rightarrow> Transaction list \<Rightarrow> error option" where
  "validate_transactions H F i [] = None"
| "validate_transactions H F i (tx # txs) =
     (case tx_Validate H F tx of
        Some err \<Rightarrow> Some (TransactionInvalid i err)
      | None \<Rightarrow> validate_transactions H F (Suc i) txs)"

definition Validate :: "sha256hex \<Rightarrow> rfc3339nano \<Rightarrow> Block \<Rightarrow> error option" where
  "Validate H F b =
     (if b_Index b = 0 \<and> b_PreviousHash b \<noteq> ''0'' then Some GenesisPreviousHash
      else if b_Hash b = [] then Some BlockHashEmpty
      else if b_Hash b \<noteq> ComputeHash H F b then Some BlockHashInvalid
      else if b_MerkleRoot b \<noteq> ComputeMerkleRoot H b
        then Some (MerkleRootMismatch (ComputeMerkleRoot H b) (b_MerkleRoot b))
      else validate_transactions H F 0 (b_Transactions b))"

text \<open>
  \<open>HasValidProofOfWork\<close>: \<^verbatim>\<open>b.Hash[:b.Difficulty] == requiredPrefix\<close>. The slice
  expression panics when the difficulty is negative or more than the length of the hash.
\<close>

definition HasValidProofOfWork :: "Block \<Rightarrow> error + bool" where
  "HasValidProofOfWork b =
     (if b_Difficulty b < 0 \<or> int (length (b_Hash b)) < b_Difficulty b then Inl PanicSliceBounds
      else Inr (take (nat (b_Difficulty b)) (b_Hash b) = replicate (nat (b_Difficulty b)) CHR ''0''))"

section \<open>src/core/genesis.go\<close>

definition preFundedAddress :: string where
  "preFundedAddress =
     ''04f8a1c2d3e4f5a6b7c8d9e0f1a2b3c4d5e6f7a8b9c0d1e2f3a4b5c6d7e8f9a0b1c2d3e4f5a6b7c8d9e0f1a2b3c4d5e6f7a8b9c0d1e2f3a4b5c6d7e8f9''"

text \<open>
  \<open>NewGenesisBlock\<close> takes no argument in Go; it reads the clock inside
  \<open>NewCoinbaseTransaction\<close>, and \<open>now\<close> is that reading. The block's own timestamp is
  \<^verbatim>\<open>time.Unix(1577836800, 0)\<close>.
\<close>

definition NewGenesisBlock :: "sha256hex \<Rightarrow> rfc3339nano \<Rightarrow> time \<Rightarrow> Block" where
  "NewGenesisBlock H F now =
     (let coinbase = NewCoinbaseTransaction H F now preFundedAddress 1000000;
          genesis = \<lparr>b_Index = 0, b_Timestamp = 1577836800 * 1000000000,
                     b_Transactions = [coinbase], b_Nonce = 0, b_PreviousHash = ''0'',
                     b_MerkleRoot = [], b_Hash = [], b_Difficulty = 1\<rparr>;
          genesis = genesis\<lparr>b_MerkleRoot := ComputeMerkleRoot H genesis\<rparr>
      in genesis\<lparr>b_Hash := ComputeHash H F genesis\<rparr>)"

section \<open>src/core/utxo.go\<close>

record UTXO =
  u_TxID :: string
  u_Address :: string
  u_Amount :: uint64
  u_Index :: int

text \<open>
  The Go set is a map from transaction id to a map from output index to the output.
  Here it is one association list on the pair of both keys, in the order in which
  \<^verbatim>\<open>range\<close> walks the two maps. Go leaves that order open; a theorem about one call
  is stated for every list, so for every order the walk can take. \<open>RemoveUTXO\<close> also
  drops an inner map that became empty, which no function modelled here can observe.
\<close>

type_synonym UTXOSet = "((string \<times> int) \<times> UTXO) list"

fun put :: "'k \<Rightarrow> 'v \<Rightarrow> ('k \<times> 'v) list \<Rightarrow> ('k \<times> 'v) list" where
  "put k v [] = [(k, v)]"
| "put k v ((k', v') # rest) = (if k' = k then (k, v) # rest else (k', v') # put k v rest)"

definition AddUTXO :: "UTXO \<Rightarrow> UTXOSet \<Rightarrow> UTXOSet" where
  "AddUTXO utxo us = put (u_TxID utxo, u_Index utxo) utxo us"

definition RemoveUTXO :: "string \<Rightarrow> int \<Rightarrow> UTXOSet \<Rightarrow> UTXOSet" where
  "RemoveUTXO txID index us = filter (\<lambda>(k, u). k \<noteq> (txID, index)) us"

definition GetUTXOsForAddress :: "string \<Rightarrow> UTXOSet \<Rightarrow> UTXO list" where
  "GetUTXOsForAddress address us = filter (\<lambda>utxo. u_Address utxo = address) (map snd us)"

text \<open>\<open>GetBalance\<close> adds \<^verbatim>\<open>uint64\<close> amounts: the sum wraps around.\<close>

definition GetBalance :: "string \<Rightarrow> UTXOSet \<Rightarrow> uint64" where
  "GetBalance address us =
     fold (\<lambda>utxo balance. balance + u_Amount utxo) (GetUTXOsForAddress address us) 0"

text \<open>
  The selection loop of \<open>ApplyTransaction\<close>: it takes the sender's outputs in order,
  adds each amount to \<open>totalAvailable\<close> (a \<^verbatim>\<open>uint64\<close>) and stops as soon as the total
  reaches \<open>totalNeeded\<close>.
\<close>

fun select_utxos :: "uint64 \<Rightarrow> UTXO list \<Rightarrow> uint64 \<Rightarrow> UTXO list \<Rightarrow> uint64 \<times> UTXO list" where
  "select_utxos totalNeeded [] totalAvailable utxosToSpend = (totalAvailable, utxosToSpend)"
| "select_utxos totalNeeded (utxo # rest) totalAvailable utxosToSpend =
     (let utxosToSpend = utxosToSpend @ [utxo];
          totalAvailable = totalAvailable + u_Amount utxo
      in if totalAvailable \<ge> totalNeeded then (totalAvailable, utxosToSpend)
         else select_utxos totalNeeded rest totalAvailable utxosToSpend)"

text \<open>
  \<open>ApplyTransaction\<close> returns the error and the set as the call leaves it, so that
  what an error path does to the set is a theorem and not a convention of the model.
\<close>

definition ApplyTransaction :: "Transaction \<Rightarrow> UTXOSet \<Rightarrow> error option \<times> UTXOSet" where
  "ApplyTransaction tx us =
     (if IsCoinbase tx then
        (None, AddUTXO \<lparr>u_TxID = tx_ID tx, u_Address = tx_To tx, u_Amount = tx_Amount tx,
                         u_Index = 0\<rparr> us)
      else
        let senderUTXOs = GetUTXOsForAddress (tx_From tx) us in
        if length senderUTXOs = 0 then (Some SenderHasNoUTXOs, us)
        else
          let totalNeeded = Total tx;
              (totalAvailable, utxosToSpend) = select_utxos totalNeeded senderUTXOs 0 []
          in
          if totalAvailable < totalNeeded
          then (Some (InsufficientBalance totalAvailable totalNeeded), us)
          else
            let us = fold (\<lambda>utxo. RemoveUTXO (u_TxID utxo) (u_Index utxo)) utxosToSpend us;
                us = AddUTXO \<lparr>u_TxID = tx_ID tx, u_Address = tx_To tx,
                              u_Amount = tx_Amount tx, u_Index = 0\<rparr> us;
                change = totalAvailable - totalNeeded
            in if change > 0
               then (None, AddUTXO \<lparr>u_TxID = tx_ID tx, u_Address = tx_From tx,
                                     u_Amount = change, u_Index = 1\<rparr> us)
               else (None, us))"

text \<open>
  The loop that \<open>Update\<close> and \<open>AddBlock\<close> both run: apply the transactions in order and
  stop at the first error, leaving the set as the earlier transactions made it.
\<close>

fun apply_transactions :: "Transaction list \<Rightarrow> UTXOSet \<Rightarrow> (Transaction \<times> error) option \<times> UTXOSet" where
  "apply_transactions [] us = (None, us)"
| "apply_transactions (tx # txs) us =
     (case ApplyTransaction tx us of
        (Some err, us') \<Rightarrow> (Some (tx, err), us')
      | (None, us') \<Rightarrow> apply_transactions txs us')"

definition Update :: "Block \<Rightarrow> UTXOSet \<Rightarrow> error option \<times> UTXOSet" where
  "Update block us =
     (case apply_transactions (b_Transactions block) us of
        (Some (tx, err), us') \<Rightarrow> (Some (FailedToApplyTransactionOf (tx_ID tx) err), us')
      | (None, us') \<Rightarrow> (None, us'))"

definition ValidateTransaction :: "Transaction \<Rightarrow> UTXOSet \<Rightarrow> error option" where
  "ValidateTransaction tx us =
     (if IsCoinbase tx then None
      else let balance = GetBalance (tx_From tx) us; totalNeeded = Total tx
           in if balance < totalNeeded then Some (InsufficientBalance balance totalNeeded)
              else None)"

section \<open>src/txpool/mempool.go\<close>

text \<open>
  The pool is a Go map from id to transaction: an association list in the order of the
  \<^verbatim>\<open>range\<close> loop, as for the UTXO set.
\<close>

type_synonym Mempool = "(string \<times> Transaction) list"

definition AddTransaction :: "Transaction \<Rightarrow> Mempool \<Rightarrow> error option \<times> Mempool" where
  "AddTransaction tx mp =
     (if map_of mp (tx_ID tx) \<noteq> None then (Some AlreadyInMempool, mp)
      else (None, put (tx_ID tx) tx mp))"

definition RemoveTransaction :: "string \<Rightarrow> Mempool \<Rightarrow> Mempool" where
  "RemoveTransaction txID mp = filter (\<lambda>(k, tx). k \<noteq> txID) mp"

text \<open>
  \<^verbatim>\<open>sort.Slice(txs, less)\<close>: the slice sorted by the function \<open>lt\<close>. Go does not say in
  which order it leaves elements that \<open>lt\<close> does not separate; the model is insertion sort,
  which keeps them in their order.
\<close>

fun insert_by :: "('a \<Rightarrow> 'a \<Rightarrow> bool) \<Rightarrow> 'a \<Rightarrow> 'a list \<Rightarrow> 'a list" where
  "insert_by lt x [] = [x]"
| "insert_by lt x (y # ys) = (if lt y x then y # insert_by lt x ys else x # y # ys)"

definition sort_Slice :: "('a \<Rightarrow> 'a \<Rightarrow> bool) \<Rightarrow> 'a list \<Rightarrow> 'a list" where
  "sort_Slice lt xs = foldr (insert_by lt) xs []"

text \<open>
  \<open>GetTransactions\<close>: \<open>limit\<close> is a Go \<^verbatim>\<open>int\<close>. \<^verbatim>\<open>txs[:limit]\<close> is reached whenever
  \<^verbatim>\<open>len(txs) > limit\<close>, so also for a negative limit, where the slice expression
  panics.
\<close>

definition GetTransactions :: "int \<Rightarrow> Mempool \<Rightarrow> error + Transaction list" where
  "GetTransactions limit mp =
     (let txs = map snd mp;
          txs = sort_Slice (\<lambda>a b. tx_Fee a > tx_Fee b) txs
      in if int (length txs) > limit
         then (if limit < 0 then Inl PanicSliceBounds else Inr (take (nat limit) txs))
         else Inr txs)"

section \<open>src/unnamed/part_001: the Blockchain type of package core\<close>

text \<open>
  \<^verbatim>\<open>main\<close> builds one \<open>UTXOSet\<close> and hands the same pointer to \<open>NewBlockchain\<close>,
  \<open>NewMiner\<close> and \<open>NewServer\<close>, and one \<open>Mempool\<close> to the miner, the gossip node and
  the server: the node has one UTXO set and one pool, and every component writes to
  them. The state of the node is the chain (its blocks and its height counter), that
  set and that pool.
\<close>

record Node =
  blocks :: "Block list"
  height :: uint64
  utxoSet :: UTXOSet
  mempool :: Mempool

text \<open>
  The archive behind \<^verbatim>\<open>store.Store\<close> is outside the model; \<open>SaveBlock\<close> is the error
  that the archive returns for a block.
\<close>

type_synonym archive = "Block \<Rightarrow> error option"

definition NewBlockchain :: Node where
  "NewBlockchain = \<lparr>blocks = [], height = 0, utxoSet = [], mempool = []\<rparr>"

text \<open>\<open>createGenesisBlock\<close> drops the error of \<open>ApplyTransaction\<close>.\<close>

definition createGenesisBlock ::
  "sha256hex \<Rightarrow> rfc3339nano \<Rightarrow> archive \<Rightarrow> time \<Rightarrow> Node \<Rightarrow> error option \<times> Node" where
  "createGenesisBlock H F SaveBlock now bc =
     (let genesis = NewGenesisBlock H F now;
          bc = bc\<lparr>blocks := blocks bc @ [genesis], height := 0\<rparr>;
          bc = bc\<lparr>utxoSet := fold (\<lambda>tx us. snd (ApplyTransaction tx us))
                                  (b_Transactions genesis) (utxoSet bc)\<rparr>
      in (SaveBlock genesis, bc))"

text \<open>
  \<open>ValidateBlock\<close> of the chain. \<^verbatim>\<open>bc.blocks[len(bc.blocks)-1]\<close> panics on a chain
  without blocks; \<^verbatim>\<open>bc.height+1\<close> is a \<^verbatim>\<open>uint64\<close> sum.
\<close>

definition ValidateBlock :: "sha256hex \<Rightarrow> rfc3339nano \<Rightarrow> Node \<Rightarrow> Block \<Rightarrow> error option" where
  "ValidateBlock H F bc block =
     (if height bc > 0 \<and> blocks bc = [] then Some PanicIndexOutOfRange
      else if height bc > 0 \<and> b_PreviousHash block \<noteq> b_Hash (last (blocks bc))
        then Some PreviousHashMismatch
      else if b_Index block \<noteq> height bc + 1 then Some InvalidBlockIndex
      else Validate H F block)"

text \<open>
  \<open>AddBlock\<close>: validate, apply every transaction to the UTXO set (returning at the first
  error, with the set as the earlier transactions left it), append, count, archive.
  \<^verbatim>\<open>json.Marshal\<close> of a block does not fail.
\<close>

definition AddBlock ::
  "sha256hex \<Rightarrow> rfc3339nano \<Rightarrow> archive \<Rightarrow> Block \<Rightarrow> Node \<Rightarrow> error option \<times> Node" where
  "AddBlock H F SaveBlock block bc =
     (case ValidateBlock H F bc block of
        Some err \<Rightarrow> (Some (InvalidBlock err), bc)
      | None \<Rightarrow>
          (case apply_transactions (b_Transactions block) (utxoSet bc) of
             (Some (tx, err), us) \<Rightarrow> (Some (FailedToApplyTransaction err), bc\<lparr>utxoSet := us\<rparr>)
           | (None, us) \<Rightarrow>
               (SaveBlock block,
                bc\<lparr>utxoSet := us, blocks := blocks bc @ [block], height := height bc + 1\<rparr>)))"

definition GetLatestBlock :: "Node \<Rightarrow> Block option" where
  "GetLatestBlock bc = (if length (blocks bc) = 0 then None else Some (last (blocks bc)))"

text \<open>
  \<open>GetBlocks\<close>: \<^verbatim>\<open>end := start + limit\<close> is a \<^verbatim>\<open>uint64\<close> sum, then capped at the
  number of blocks (\<open>end0\<close> and \<open>end1\<close> are the two values of \<^verbatim>\<open>end\<close>);
  \<^verbatim>\<open>bc.blocks[start:end]\<close> panics when \<open>start\<close> is more than \<open>end\<close>.
\<close>

definition GetBlocks :: "uint64 \<Rightarrow> uint64 \<Rightarrow> Node \<Rightarrow> error + Block list" where
  "GetBlocks start limit bc =
     (let end0 = start + limit;
          end1 = (if unat end0 > length (blocks bc) then length (blocks bc) else unat end0)
      in if unat start > end1 then Inl PanicSliceBounds
         else Inr (take (end1 - unat start) (drop (unat start) (blocks bc))))"

text \<open>
  \<open>handleGetBlocks\<close> of the HTTP server (in src/types/transaction.go): \<open>start\<close> and \<open>limit\<close> are the two query
  parameters as \<^verbatim>\<open>strconv.ParseUint\<close> read them, the limit is capped at 100.
\<close>

definition handleGetBlocks :: "uint64 \<Rightarrow> uint64 \<Rightarrow> Node \<Rightarrow> error + Block list" where
  "handleGetBlocks start limit bc = GetBlocks start (if limit > 100 then 100 else limit) bc"

section \<open>src/consensus/pow.go\<close>

record ProofOfWork =
  difficulty :: int
  targetBlockTime :: int

definition NewProofOfWork :: "int \<Rightarrow> int \<Rightarrow> ProofOfWork" where
  "NewProofOfWork d t =
     \<lparr>difficulty = (if d < 1 then 1 else d),
      targetBlockTime = (if t = 0 then 10 * 1000000000 else t)\<rparr>"

definition SetDifficulty :: "int \<Rightarrow> ProofOfWork \<Rightarrow> ProofOfWork" where
  "SetDifficulty d pow = pow\<lparr>difficulty := (if d < 1 then 1 else d)\<rparr>"

text \<open>\<^verbatim>\<open>strings.Repeat\<close> panics on a negative count.\<close>

definition strings_Repeat :: "string \<Rightarrow> int \<Rightarrow> error + string" where
  "strings_Repeat s count =
     (if count < 0 then Inl PanicNegativeRepeatCount else Inr (concat (replicate (nat count) s)))"

definition isValidHash :: "string \<Rightarrow> string \<Rightarrow> bool" where
  "isValidHash hash target =
     (if length hash < length target then False else take (length target) hash = target)"

definition pow_ValidateBlock ::
  "sha256hex \<Rightarrow> rfc3339nano \<Rightarrow> ProofOfWork \<Rightarrow> Block \<Rightarrow> error option" where
  "pow_ValidateBlock H F pow block =
     (let expectedHash = ComputeHash H F block in
      if b_Hash block \<noteq> expectedHash then Some (BlockHashIncorrect expectedHash (b_Hash block))
      else case strings_Repeat ''0'' (difficulty pow) of
             Inl panic \<Rightarrow> Some panic
           | Inr target \<Rightarrow>
               if \<not> isValidHash (b_Hash block) target then Some (DifficultyNotMet (difficulty pow))
               else None)"

text \<open>
  The loop of \<open>Mine\<close> has no bound: it sets the hash, returns if the hash is valid and
  tries the next nonce otherwise. Not returning is the value \<open>None\<close>.
\<close>

partial_function (option) mine_loop ::
  "sha256hex \<Rightarrow> rfc3339nano \<Rightarrow> string \<Rightarrow> Block \<Rightarrow> Block option" where
  "mine_loop H F target block =
     (let block = SetHash H F block in
      if isValidHash (b_Hash block) target then Some block
      else mine_loop H F target (block\<lparr>b_Nonce := b_Nonce block + 1\<rparr>))"

definition Mine ::
  "sha256hex \<Rightarrow> rfc3339nano \<Rightarrow> ProofOfWork \<Rightarrow> Block \<Rightarrow> (error + Block) option" where
  "Mine H F pow block =
     (case strings_Repeat ''0'' (difficulty pow) of
        Inl panic \<Rightarrow> Some (Inl panic)
      | Inr target \<Rightarrow> map_option Inr (mine_loop H F target block))"

section \<open>src/miner/miner.go\<close>

text \<open>
  \<open>MineBlock\<close> on the node. \<open>now1\<close> and \<open>now2\<close> are the two readings of the clock (for
  the coinbase transaction and for the block). The result is \<open>None\<close> when \<open>Mine\<close> does
  not return. After \<open>AddBlock\<close> has applied the block's transactions to the node's UTXO
  set, \<open>m.utxoSet.Update(newBlock)\<close> applies them to the same set; its error is
  logged and dropped.
\<close>

definition MineBlock ::
  "sha256hex \<Rightarrow> rfc3339nano \<Rightarrow> archive \<Rightarrow> time \<Rightarrow> time \<Rightarrow> ProofOfWork \<Rightarrow> string \<Rightarrow> Node
     \<Rightarrow> (error option \<times> Node) option" where
  "MineBlock H F SaveBlock now1 now2 pow minerAddress node =
     (case GetTransactions 100 (mempool node) of
        Inl panic \<Rightarrow> Some (Some panic, node)
      | Inr txs \<Rightarrow>
          (let blockReward = 50;
               totalFees = fold (\<lambda>tx total. total + tx_Fee tx) txs 0;
               coinbase = NewCoinbaseTransaction H F now1 minerAddress (blockReward + totalFees);
               allTxs = coinbase # txs
           in (case GetLatestBlock node of
                 None \<Rightarrow> Some (Some PanicNilDereference, node)
               | Some lastBlock \<Rightarrow>
                   (case Mine H F pow (NewBlock H now2 (height node + 1) allTxs
                                         (b_Hash lastBlock) (difficulty pow)) of
                      None \<Rightarrow> None
                    | Some (Inl err) \<Rightarrow> Some (Some err, node)
                    | Some (Inr newBlock) \<Rightarrow>
                        (case AddBlock H F SaveBlock newBlock node of
                           (Some err, node') \<Rightarrow> Some (Some err, node')
                         | (None, node') \<Rightarrow>
                             Some (None,
                               node'\<lparr>utxoSet := snd (Update newBlock (utxoSet node')),
                                     mempool := fold (\<lambda>tx. RemoveTransaction (tx_ID tx)) txs
                                                  (mempool node')\<rparr>))))))"

section \<open>src/p2p/gossip.go\<close>

text \<open>
  A message is its type and its raw payload. The handler decodes the payload with
  \<^verbatim>\<open>json.Unmarshal\<close> into a transaction or into a block; the two fields \<open>as_tx\<close> and
  \<open>as_block\<close> are what each decoding returns, \<open>None\<close> for an error. Sending to the
  peers does not change the node.
\<close>

record Message =
  m_Type :: string
  as_tx :: "Transaction option"
  as_block :: "Block option"

definition handleMessage ::
  "sha256hex \<Rightarrow> rfc3339nano \<Rightarrow> archive \<Rightarrow> Message \<Rightarrow> Node \<Rightarrow> Node" where
  "handleMessage H F SaveBlock msg n =
     (if m_Type msg = ''new_transaction'' then
        (case as_tx msg of
           Some tx \<Rightarrow> n\<lparr>mempool := snd (AddTransaction tx (mempool n))\<rparr>
         | None \<Rightarrow> n)
      else if m_Type msg = ''new_block'' then
        (case as_block msg of
           Some block \<Rightarrow> snd (AddBlock H F SaveBlock block n)
         | None \<Rightarrow> n)
      else n)"

section \<open>src/api/server.go: the key functions of package wallet\<close>

type_synonym byte = "8 word"

text \<open>
  A public key is the pair of its coordinates, two \<^verbatim>\<open>*big.Int\<close> that are not negative.
  \<^verbatim>\<open>(*big.Int).Bytes\<close> returns the big-endian bytes of the absolute value without
  leading zero bytes, so no byte at all for 0.
\<close>

record PublicKey =
  pk_X :: nat
  pk_Y :: nat

function big_Bytes :: "nat \<Rightarrow> byte list" where
  "big_Bytes n = (if n = 0 then [] else big_Bytes (n div 256) @ [of_nat (n mod 256)])"
  by pat_completeness auto
termination
  by (relation "measure id") auto

declare big_Bytes.simps [simp del]

definition hex_EncodeToString :: "byte list \<Rightarrow> string" where
  "hex_EncodeToString src =
     concat (map (\<lambda>b. [''0123456789abcdef'' ! (unat b div 16),
                        ''0123456789abcdef'' ! (unat b mod 16)]) src)"

definition fromHexChar :: "char \<Rightarrow> nat option" where
  "fromHexChar c =
     (let n = (of_char c :: nat) in
      if 48 \<le> n \<and> n \<le> 57 then Some (n - 48)
      else if 97 \<le> n \<and> n \<le> 102 then Some (n - 97 + 10)
      else if 65 \<le> n \<and> n \<le> 70 then Some (n - 65 + 10)
      else None)"

text \<open>\<^verbatim>\<open>hex.DecodeString\<close> fails on a character that is no hex digit and on an odd length.\<close>

fun hex_DecodeString :: "string \<Rightarrow> byte list option" where
  "hex_DecodeString [] = Some []"
| "hex_DecodeString [c] = None"
| "hex_DecodeString (a # b # rest) =
     (case fromHexChar a of
        None \<Rightarrow> None
      | Some hi \<Rightarrow>
          (case fromHexChar b of
             None \<Rightarrow> None
           | Some lo \<Rightarrow>
               (case hex_DecodeString rest of
                  None \<Rightarrow> None
                | Some bytes \<Rightarrow> Some (of_nat (hi * 16 + lo) # bytes))))"

definition PublicKeyToAddress :: "PublicKey \<Rightarrow> string" where
  "PublicKeyToAddress pubKey =
     (let pubKeyBytes = [4] @ big_Bytes (pk_X pubKey);
          pubKeyBytes = pubKeyBytes @ big_Bytes (pk_Y pubKey)
      in hex_EncodeToString pubKeyBytes)"

text \<open>
  \<^verbatim>\<open>btcec.ParsePubKey\<close> belongs to a library. \<open>AddressToPublicKey\<close> calls it on 65
  bytes that start with \<open>0x04\<close> only; on those it reads two big-endian coordinates of
  32 bytes each and fails when a coordinate is not below the field prime of secp256k1
  or the point is not on the curve \<open>y\<^sup>2 = x\<^sup>3 + 7\<close>.
\<close>

definition secp256k1_P :: nat where
  "secp256k1_P = 2 ^ 256 - 2 ^ 32 - 977"

definition isOnCurve :: "nat \<Rightarrow> nat \<Rightarrow> bool" where
  "isOnCurve x y = ((y * y) mod secp256k1_P = (x * x * x + 7) mod secp256k1_P)"

definition SetByteSlice :: "byte list \<Rightarrow> nat" where
  "SetByteSlice bs = foldl (\<lambda>acc b. acc * 256 + unat b) 0 bs"

definition ParsePubKey :: "byte list \<Rightarrow> PublicKey option" where
  "ParsePubKey serialized =
     (let x = SetByteSlice (take 32 (drop 1 serialized));
          y = SetByteSlice (take 32 (drop 33 serialized))
      in if x \<ge> secp256k1_P \<or> y \<ge> secp256k1_P then None
         else if \<not> isOnCurve x y then None
         else Some \<lparr>pk_X = x, pk_Y = y\<rparr>)"

definition AddressToPublicKey :: "string \<Rightarrow> error + PublicKey" where
  "AddressToPublicKey address =
     (case hex_DecodeString address of
        None \<Rightarrow> Inl InvalidAddressHex
      | Some pubKeyBytes \<Rightarrow>
          if length pubKeyBytes \<noteq> 65 then Inl (InvalidPublicKeyLength (length pubKeyBytes))
          else if pubKeyBytes ! 0 \<noteq> 4 then Inl InvalidPublicKeyFormat
          else (case ParsePubKey pubKeyBytes of
                  None \<Rightarrow> Inl FailedToParsePublicKey
                | Some pubKey \<Rightarrow> Inr pubKey))"

section \<open>Signature check of package wallet and the handler of POST /tx\<close>

text \<open>
  \<open>DataToSign\<close> is the SHA-256 digest of the signed fields (here in the hex rendering
  that \<open>H\<close> returns). The ECDSA check \<^verbatim>\<open>Verify(data, signature, pubKey)\<close> belongs to
  a library and is the parameter \<open>Verify\<close>.
\<close>

definition DataToSign :: "sha256hex \<Rightarrow> rfc3339nano \<Rightarrow> Transaction \<Rightarrow> string" where
  "DataToSign H F tx =
     H (tx_From tx @ tx_To tx @ dec (unat (tx_Amount tx)) @ dec (unat (tx_Fee tx))
        @ F (tx_Timestamp tx))"

type_synonym ecdsa_verify = "string \<Rightarrow> string \<Rightarrow> PublicKey \<Rightarrow> error + bool"

definition VerifyTransactionSignature ::
  "sha256hex \<Rightarrow> rfc3339nano \<Rightarrow> ecdsa_verify \<Rightarrow> Transaction \<Rightarrow> error + bool" where
  "VerifyTransactionSignature H F Verify tx =
     (if IsCoinbase tx then Inr True
      else (case AddressToPublicKey (tx_From tx) of
              Inl err \<Rightarrow> Inl (InvalidSenderAddress err)
            | Inr pubKey \<Rightarrow>
                (case Verify (DataToSign H F tx) (tx_Signature tx) pubKey of
                   Inl err \<Rightarrow> Inl (SignatureVerificationFailed err)
                 | Inr valid \<Rightarrow> Inr valid)))"

text \<open>
  \<open>handleBroadcastTransaction\<close> (\<^verbatim>\<open>POST /tx\<close>) on a decoded transaction: the error is
  the one that the handler answers with status 400. It validates the transaction, its
  signature and the sender's balance before it adds the transaction to the pool.
\<close>

definition handleBroadcastTransaction ::
  "sha256hex \<Rightarrow> rfc3339nano \<Rightarrow> ecdsa_verify \<Rightarrow> Transaction \<Rightarrow> Node \<Rightarrow> error option \<times> Node" where
  "handleBroadcastTransaction H F Verify tx s =
     (case tx_Validate H F tx of
        Some err \<Rightarrow> (Some (HttpInvalidTransaction err), s)
      | None \<Rightarrow>
          (if VerifyTransactionSignature H F Verify tx \<noteq> Inr True
           then (Some HttpInvalidSignature, s)
           else (case ValidateTransaction tx (utxoSet s) of
                   Some err \<Rightarrow> (Some (HttpTransactionValidationFailed err), s)
                 | None \<Rightarrow>
                     (case AddTransaction tx (mempool s) of
                        (Some err, mp) \<Rightarrow> (Some err, s\<lparr>mempool := mp\<rparr>)
                      | (None, mp) \<Rightarrow> (None, s\<lparr>mempool := mp\<rparr>)))))"

section \<open>Stand-ins for the two library functions\<close>

text \<open>
  Where a theorem is run on a concrete input, \<open>H\<close> and \<open>F\<close> are these two functions.
  \<open>zero_hash\<close> puts one \<open>0\<close> in front of its input: it has no collisions, as SHA-256
  is taken to have none, and a nonce search at difficulty 1 ends at the first nonce.
  \<open>nanos\<close> renders an instant as its number of nanoseconds. \<open>archive_ok\<close> is an
  archive that stores every block.
\<close>

definition zero_hash :: sha256hex where
  "zero_hash s = CHR ''0'' # s"

definition nanos :: rfc3339nano where
  "nanos t = dec_int t"

definition archive_ok :: archive where
  "archive_ok block = None"

section \<open>Concrete inputs\<close>

text \<open>
  A fresh node: \<open>Initialize\<close> on an empty archive builds the genesis block, which
  credits the pre-funded address with 1000000.
\<close>

definition fresh_node :: Node where
  "fresh_node = snd (createGenesisBlock zero_hash nanos archive_ok 0 NewBlockchain)"

text \<open>
  A transfer of 100 with fee 10 from the pre-funded address to \<open>B\<close>, with its id set as
  \<open>SetSignature\<close> sets it, and the node that has this one transaction in its pool.
\<close>

definition transfer :: Transaction where
  "transfer = SetSignature zero_hash nanos ''sig'' (NewTransaction 3 preFundedAddress ''B'' 100 10)"

definition node_with_transfer :: Node where
  "node_with_transfer = fresh_node\<lparr>mempool := snd (AddTransaction transfer (mempool fresh_node))\<rparr>"

text \<open>
  The block that \<open>MineBlock\<close> builds and mines on that node for the miner \<open>M\<close>, with
  the clock at 8 and at 9: the coinbase of \<open>50 + 10\<close> and the transfer.
\<close>

definition mined_block :: Block where
  "mined_block =
     SetHash zero_hash nanos
       (NewBlock zero_hash 9 1
          [NewCoinbaseTransaction zero_hash nanos 8 ''M'' 60, transfer]
          (b_Hash (NewGenesisBlock zero_hash nanos 0)) 1)"

text \<open>
  A transaction whose sender \<open>C\<close> is no address (not even hex), owns nothing and whose
  signature is three letters; its id is the one that \<open>Hash\<close> gives.
\<close>

definition unsigned_transfer :: Transaction where
  "unsigned_transfer = SetSignature zero_hash nanos ''bad'' (NewTransaction 7 ''C'' ''D'' 1 1)"

text \<open>
  A block for height 1 without transactions that names a previous block which does not
  exist and asks for difficulty 4; its hash is set by \<open>SetHash\<close> at nonce 0 and starts
  with one \<open>0\<close> only.
\<close>

definition forged_block :: Block where
  "forged_block = SetHash zero_hash nanos (NewBlock zero_hash 5 1 [] ''no such block'' 4)"

text \<open>
  A sender \<open>A\<close> who owns a single output of 5, and a transfer from \<open>A\<close> of
  \<open>2 ^ 64 - 1\<close> with fee 1, with its id set as \<open>SetSignature\<close> sets it.
\<close>

definition five_coins :: UTXOSet where
  "five_coins = [((''g'', 0), \<lparr>u_TxID = ''g'', u_Address = ''A'', u_Amount = 5, u_Index = 0\<rparr>)]"

definition overflowing_transfer :: Transaction where
  "overflowing_transfer =
     SetSignature zero_hash nanos ''sig'' (NewTransaction 0 ''A'' ''B'' 18446744073709551615 1)"

text \<open>The public key of the private key 153 on secp256k1.\<close>

definition key_153 :: PublicKey where
  "key_153 =
     \<lparr>pk_X = 402275873819480217527543954245978242749948912216697339260697277277855307913,
      pk_Y = 19411896589701336237661297174692886517905212093130893753719983191330346751652\<rparr>"


section \<open>Merkle trees: a generated proof verifies against the root\<close>

lemma length_combine_pairs [simp]: "length (combine_pairs H hashes) = length hashes div 2"
  by (induction H hashes rule: combine_pairs.induct) simp_all

lemma length_dup_last: "length (dup_last hashes) = length hashes + length hashes mod 2"
  by (simp add: dup_last_def)

lemma even_length_dup_last: "even (length (dup_last hashes))"
  by (auto simp: dup_last_def odd_iff_mod_2_eq_one)

lemma next_level_shorter:
  "1 < length hashes \<Longrightarrow> length (combine_pairs H (dup_last hashes)) < length hashes"
  unfolding length_combine_pairs length_dup_last by arith

lemma proof_loop_acc: "proof_loop H level i acc = acc @ proof_loop H level i []"
proof (induction "length level" arbitrary: level i acc rule: less_induct)
  case less
  show ?case
  proof (cases "1 < length level")
    case True
    note IH = less [OF next_level_shorter [OF True]]
    show ?thesis
      unfolding proof_loop.simps [of H level i acc] proof_loop.simps [of H level i "[]"]
      using True IH [of H "i div 2" "acc @ [dup_last level ! nat (if i mod 2 = 0 then int i + 1 else int i - 1)]"]
         IH [of H "i div 2" "[dup_last level ! nat (if i mod 2 = 0 then int i + 1 else int i - 1)]"]
         IH [of H "i div 2" acc]
      by (simp add: Let_def)
  next
    case False
    then show ?thesis by (simp add: proof_loop.simps)
  qed
qed

lemma nth_dup_last: "i < length xs \<Longrightarrow> dup_last xs ! i = xs ! i"
  by (simp add: dup_last_def nth_append)

lemma nth_combine_pairs:
  "2 * k + 1 < length ys \<Longrightarrow>
   combine_pairs H ys ! k = combineHashes H (ys ! (2 * k)) (ys ! (2 * k + 1))"
proof (induction H ys arbitrary: k rule: combine_pairs.induct)
  case (3 H a b rest)
  then show ?case by (cases k) simp_all
qed simp_all

lemma verify_loop_shift:
  "verify_loop H index (Suc i) cur ps = verify_loop H (index div 2) i cur ps"
proof (induction ps arbitrary: i cur)
  case Nil
  show ?case by simp
next
  case (Cons s ps)
  have "index div 2 ^ Suc i = index div 2 div 2 ^ i"
    by (simp add: zdiv_zmult2_eq)
  with Cons show ?case by simp
qed

lemma sibling_in_level:
  assumes "i < length xs"
  shows "(if even i then i + 1 else i - 1) < length (dup_last xs)"
proof (cases "even i")
  case True
  have "even (length (dup_last xs))" by (rule even_length_dup_last)
  moreover have "i < length (dup_last xs)" using assms by (simp add: length_dup_last)
  ultimately have "i + 1 < length (dup_last xs)" using True
    by (metis Suc_eq_plus1 Suc_lessI even_Suc)
  with True show ?thesis by simp
next
  case False
  then show ?thesis using assms by (simp add: length_dup_last)
qed

lemma proof_loop_step:
  assumes "1 < length xs" "i < length xs"
  shows "proof_loop H xs i [] =
           dup_last xs ! (if even i then i + 1 else i - 1)
             # proof_loop H (combine_pairs H (dup_last xs)) (i div 2) []"
proof -
  let ?s = "if even i then i + 1 else i - 1"
  have s: "?s < length (dup_last xs)"
    using assms(2) by (rule sibling_in_level)
  have n: "nat (if i mod 2 = 0 then int i + 1 else int i - 1) = ?s"
    by (auto simp: even_iff_mod_2_eq_zero)
  have lt: "(if i mod 2 = 0 then int i + 1 else int i - 1) < int (length (dup_last xs))"
    using s by (auto simp: even_iff_mod_2_eq_zero split: if_splits)
  show ?thesis
    unfolding proof_loop.simps [of H xs i "[]"] Let_def
    using assms(1) lt n proof_loop_acc [of H "combine_pairs H (dup_last xs)" "i div 2" "[dup_last xs ! ?s]"]
    by (simp del: length_combine_pairs)
qed


text \<open>
  \<open>buildMerkleTree\<close> returns on every non-empty level, and what it returns is what
  \<open>verify_loop\<close> folds from any leaf along the proof of that leaf.
\<close>

lemma buildMerkleTree_verify_loop:
  "i < length xs \<Longrightarrow>
   buildMerkleTree H xs = Some (verify_loop H (int i) 0 (xs ! i) (proof_loop H xs i []))"
proof (induction "length xs" arbitrary: xs i rule: less_induct)
  case less
  from less.prems have ne: "xs \<noteq> []" by auto
  show ?case
  proof (cases "length xs = 1")
    case True
    with less.prems have "i = 0" by simp
    with True ne show ?thesis
      by (simp add: buildMerkleTree.simps [of H xs] proof_loop.simps [of H xs])
  next
    case False
    with ne have big: "1 < length xs" by (cases xs) auto
    let ?ys = "dup_last xs"
    let ?zs = "combine_pairs H ?ys"
    let ?k = "i div 2"
    let ?s = "if even i then i + 1 else i - 1"
    have s: "?s < length ?ys" using less.prems by (rule sibling_in_level)
    have i: "i < length ?ys" using less.prems by (simp add: length_dup_last)
    have pair: "2 * ?k + 1 < length ?ys"
    proof (cases "even i")
      case True
      then have "2 * ?k + 1 = ?s" by (auto elim: evenE)
      with s show ?thesis by simp
    next
      case False
      then have "2 * ?k + 1 = i" by (auto elim: oddE)
      with i show ?thesis by simp
    qed
    then have k: "?k < length ?zs" by simp
    have node: "?zs ! ?k =
        (if even i then combineHashes H (xs ! i) (?ys ! ?s)
         else combineHashes H (?ys ! ?s) (xs ! i))"
    proof (cases "even i")
      case True
      then have "2 * ?k = i" by (auto elim: evenE)
      with True nth_combine_pairs [OF pair, of H] nth_dup_last [OF less.prems]
      show ?thesis by simp
    next
      case False
      then have "2 * ?k + 1 = i" "2 * ?k = i - 1" by (auto elim: oddE)
      with False nth_combine_pairs [OF pair, of H] nth_dup_last [OF less.prems]
      show ?thesis by simp
    qed
    have IH: "buildMerkleTree H ?zs =
        Some (verify_loop H (int ?k) 0 (?zs ! ?k) (proof_loop H ?zs ?k []))"
      using less.hyps [OF next_level_shorter [OF big] k] .
    have bit: "(int i mod 2 = 0) = even i"
      by presburger
    have "verify_loop H (int i) 0 (xs ! i) (proof_loop H xs i []) =
          verify_loop H (int i) (Suc 0) (?zs ! ?k) (proof_loop H ?zs ?k [])"
      unfolding proof_loop_step [OF big less.prems] node
      by (simp add: bit)
    also have "\<dots> = verify_loop H (int ?k) 0 (?zs ! ?k) (proof_loop H ?zs ?k [])"
      unfolding verify_loop_shift by (simp add: zdiv_int)
    finally show ?thesis
      using IH ne False by (simp add: buildMerkleTree.simps [of H xs])
  qed
qed

text \<open>
  Claim C5. For every non-empty list of transaction ids and every index \<open>i\<close> with
  \<open>0 \<le> i < len(ids)\<close>, the proof that \<open>GenerateMerkleProof\<close> returns for \<open>i\<close>
  verifies \<open>ids[i]\<close> against the root that \<open>BuildMerkleRoot\<close> returns, whatever the
  hash function is: both walk the same levels, each with its last element doubled when
  its length is odd.
\<close>

theorem merkle_proof_verifies:
  assumes "ids \<noteq> []" and "0 \<le> i" and "i < int (length ids)"
  shows "VerifyTransactionInclusion H (ids ! nat i) (BuildMerkleRoot H ids)
           (GenerateMerkleProof H ids i) i"
proof -
  have "nat i < length ids" using assms by simp
  from buildMerkleTree_verify_loop [OF this, of H] assms
  show ?thesis
    by (simp add: VerifyTransactionInclusion_def BuildMerkleRoot_def GenerateMerkleProof_def)
qed

theorem merkle_proof_verifies_witness:
  "[''a'', ''b'', ''c''] \<noteq> [] \<and> (0::int) \<le> 2 \<and> (2::int) < int (length [''a'', ''b'', ''c'']) \<and>
   VerifyTransactionInclusion (\<lambda>s. CHR ''h'' # s) ([''a'', ''b'', ''c''] ! nat 2)
     (BuildMerkleRoot (\<lambda>s. CHR ''h'' # s) [''a'', ''b'', ''c''])
     (GenerateMerkleProof (\<lambda>s. CHR ''h'' # s) [''a'', ''b'', ''c''] 2) 2"
  using merkle_proof_verifies [of "[''a'', ''b'', ''c'']" 2 "\<lambda>s. CHR ''h'' # s"]
  by simp


section \<open>Rules for running the model on concrete inputs\<close>

lemma dec_small: "n < 10 \<Longrightarrow> dec n = [digit n]"
  by (simp add: dec.simps)

lemma dec_big: "\<not> n < 10 \<Longrightarrow> dec n = dec (n div 10) @ [digit (n mod 10)]"
  by (simp add: dec.simps)

lemmas eval_lib = dec_small dec_big digit_def dec_int_def zero_hash_def nanos_def archive_ok_def

lemma blocks_createGenesisBlock:
  "blocks (snd (createGenesisBlock H F SaveBlock now NewBlockchain)) = [NewGenesisBlock H F now]"
  by (simp add: createGenesisBlock_def NewBlockchain_def Let_def)


section \<open>GetBlocks: a start beyond the chain\<close>

text \<open>
  \<open>GetBlocks\<close> caps \<open>end\<close> at the number of blocks and leaves \<open>start\<close> as it came, so
  the slice expression panics exactly when \<open>start\<close> is more than the capped \<open>end\<close>.
\<close>

lemma GetBlocks_panics_iff:
  "(GetBlocks start limit bc = Inl PanicSliceBounds) =
     (min (unat (start + limit)) (length (blocks bc)) < unat start)"
  by (auto simp: GetBlocks_def Let_def min_def)

lemma GetBlocks_returns_iff:
  "(\<exists>bs. GetBlocks start limit bc = Inr bs) =
     (unat start \<le> min (unat (start + limit)) (length (blocks bc)))"
  by (auto simp: GetBlocks_def Let_def min_def)

text \<open>
  Claim C9 says that \<open>GetBlocks(start, limit)\<close> returns a slice for every \<open>start\<close> and
  \<open>limit\<close>, also for a \<open>start\<close> beyond the stored blocks. On the chain of a fresh node
  (the genesis block alone) the request \<^verbatim>\<open>GET /blockchain/blocks?start=5&limit=10\<close>
  reaches \<^verbatim>\<open>bc.blocks[5:1]\<close>, which panics.
\<close>

theorem GetBlocks_start_beyond_chain_panics:
  "handleGetBlocks 5 10 (snd (createGenesisBlock zero_hash nanos archive_ok 0 NewBlockchain))
     = Inl PanicSliceBounds"
  by (simp add: handleGetBlocks_def GetBlocks_panics_iff blocks_createGenesisBlock)


section \<open>ProofOfWork.ValidateBlock\<close>

lemma strings_Repeat_zero:
  "0 \<le> n \<Longrightarrow> strings_Repeat ''0'' n = Inr (replicate (nat n) CHR ''0'')"
  by (simp add: strings_Repeat_def)

text \<open>Every way to make or change a \<open>ProofOfWork\<close> leaves its difficulty at 1 or more.\<close>

lemma NewProofOfWork_difficulty: "1 \<le> difficulty (NewProofOfWork d t)"
  by (simp add: NewProofOfWork_def)

lemma SetDifficulty_difficulty: "1 \<le> difficulty (SetDifficulty d pow)"
  by (simp add: SetDifficulty_def)

text \<open>
  Claim C10. For a block whose stored hash is its recomputed hash, \<open>ValidateBlock\<close> of
  a \<open>ProofOfWork\<close> succeeds if and only if the hash starts with as many \<open>0\<close> characters
  as the difficulty of that \<open>ProofOfWork\<close>; the block's own \<open>Difficulty\<close> field is not
  read. (The difficulty of a \<open>ProofOfWork\<close> is never negative.)
\<close>

theorem pow_ValidateBlock_uses_own_difficulty:
  assumes "0 \<le> difficulty pow" and "b_Hash b = ComputeHash H F b"
  shows "(pow_ValidateBlock H F pow b = None) =
           (nat (difficulty pow) \<le> length (b_Hash b) \<and>
            take (nat (difficulty pow)) (b_Hash b) = replicate (nat (difficulty pow)) CHR ''0'')"
  using assms
  by (auto simp: pow_ValidateBlock_def Let_def strings_Repeat_zero isValidHash_def)

text \<open>
  A block that asks for difficulty 3 and whose hash starts with one \<open>0\<close> only is valid for
  a \<open>ProofOfWork\<close> of difficulty 1, although the block's own \<open>HasValidProofOfWork\<close> is
  false.
\<close>

theorem pow_ValidateBlock_uses_own_difficulty_witness:
  "0 \<le> difficulty (NewProofOfWork 1 0) \<and>
   b_Hash (SetHash zero_hash nanos (NewBlock zero_hash 0 1 [] ''0'' 3))
     = ComputeHash zero_hash nanos (SetHash zero_hash nanos (NewBlock zero_hash 0 1 [] ''0'' 3)) \<and>
   pow_ValidateBlock zero_hash nanos (NewProofOfWork 1 0)
     (SetHash zero_hash nanos (NewBlock zero_hash 0 1 [] ''0'' 3)) = None \<and>
   HasValidProofOfWork (SetHash zero_hash nanos (NewBlock zero_hash 0 1 [] ''0'' 3)) = Inr False"
  using pow_ValidateBlock_uses_own_difficulty
          [of "NewProofOfWork 1 0" "SetHash zero_hash nanos (NewBlock zero_hash 0 1 [] ''0'' 3)"
              zero_hash nanos]
  by (simp add: NewProofOfWork_def SetHash_def NewBlock_def ComputeHash_def ComputeMerkleRoot_def
        HasValidProofOfWork_def eval_lib eval_nat_numeral)


section \<open>Mempool.GetTransactions\<close>

lemma set_insert_by: "set (insert_by lt x xs) = insert x (set xs)"
  by (induction xs) auto

lemma length_insert_by: "length (insert_by lt x xs) = Suc (length xs)"
  by (induction xs) simp_all

lemma length_sort_Slice: "length (sort_Slice lt xs) = length xs"
  unfolding sort_Slice_def by (induction xs) (simp_all add: length_insert_by)

lemma set_sort_Slice: "set (sort_Slice lt xs) = set xs"
  unfolding sort_Slice_def by (induction xs) (simp_all add: set_insert_by)

lemma sorted_insert_by:
  fixes x :: Transaction
  assumes "sorted_wrt (\<lambda>a b. tx_Fee b \<le> tx_Fee a) xs"
  shows "sorted_wrt (\<lambda>a b. tx_Fee b \<le> tx_Fee a)
           (insert_by (\<lambda>a b. tx_Fee a > tx_Fee b) x xs)"
  using assms by (induction xs) (auto simp: set_insert_by)

lemma sorted_sort_Slice:
  fixes xs :: "Transaction list"
  shows "sorted_wrt (\<lambda>a b. tx_Fee b \<le> tx_Fee a)
           (sort_Slice (\<lambda>a b. tx_Fee a > tx_Fee b) xs)"
  unfolding sort_Slice_def by (induction xs) (simp_all add: sorted_insert_by)

lemma sorted_wrt_take: "sorted_wrt P xs \<Longrightarrow> sorted_wrt P (take n xs)"
  by (metis append_take_drop_id sorted_wrt_append)

text \<open>
  Claim C8, as the code has it: for every pool and every limit that is not negative,
  \<open>GetTransactions(limit)\<close> returns at most \<open>limit\<close> transactions, in non-increasing
  order of fee.
\<close>

theorem GetTransactions_sorted_and_bounded:
  assumes "0 \<le> limit"
  shows "\<exists>txs. GetTransactions limit mp = Inr txs \<and> int (length txs) \<le> limit \<and>
               sorted_wrt (\<lambda>a b. tx_Fee b \<le> tx_Fee a) txs"
  using assms
  by (auto simp: GetTransactions_def Let_def sorted_sort_Slice sorted_wrt_take)

text \<open>A pool of two transactions with fees 5 and 9, asked for one: the one with fee 9.\<close>

theorem GetTransactions_sorted_and_bounded_witness:
  "(0::int) \<le> 1 \<and>
   (\<exists>txs. GetTransactions 1
       [(''a'', \<lparr>tx_ID = ''a'', tx_From = ''x'', tx_To = ''y'', tx_Amount = 1, tx_Fee = 5,
                 tx_Signature = ''s'', tx_Timestamp = 0\<rparr>),
        (''b'', \<lparr>tx_ID = ''b'', tx_From = ''x'', tx_To = ''y'', tx_Amount = 1, tx_Fee = 9,
                 tx_Signature = ''s'', tx_Timestamp = 0\<rparr>)] = Inr txs \<and>
      int (length txs) \<le> 1 \<and> sorted_wrt (\<lambda>a b. tx_Fee b \<le> tx_Fee a) txs) \<and>
   GetTransactions 1
       [(''a'', \<lparr>tx_ID = ''a'', tx_From = ''x'', tx_To = ''y'', tx_Amount = 1, tx_Fee = 5,
                 tx_Signature = ''s'', tx_Timestamp = 0\<rparr>),
        (''b'', \<lparr>tx_ID = ''b'', tx_From = ''x'', tx_To = ''y'', tx_Amount = 1, tx_Fee = 9,
                 tx_Signature = ''s'', tx_Timestamp = 0\<rparr>)]
     = Inr [\<lparr>tx_ID = ''b'', tx_From = ''x'', tx_To = ''y'', tx_Amount = 1, tx_Fee = 9,
              tx_Signature = ''s'', tx_Timestamp = 0\<rparr>]"
  using GetTransactions_sorted_and_bounded [of 1
       "[(''a'', \<lparr>tx_ID = ''a'', tx_From = ''x'', tx_To = ''y'', tx_Amount = 1, tx_Fee = 5,
                 tx_Signature = ''s'', tx_Timestamp = 0\<rparr>),
        (''b'', \<lparr>tx_ID = ''b'', tx_From = ''x'', tx_To = ''y'', tx_Amount = 1, tx_Fee = 9,
                 tx_Signature = ''s'', tx_Timestamp = 0\<rparr>)]"]
  by (simp add: GetTransactions_def sort_Slice_def)

text \<open>
  Claim C8 as it is stated, for every limit, fails at a negative limit: with limit \<open>-1\<close>
  the test \<^verbatim>\<open>len(txs) > limit\<close> holds on the empty pool and \<^verbatim>\<open>txs[:-1]\<close> panics,
  so nothing is returned.
\<close>

theorem GetTransactions_negative_limit_panics:
  "GetTransactions (- 1) [] = Inl PanicSliceBounds"
  by (simp add: GetTransactions_def sort_Slice_def)


section \<open>Addresses of public keys\<close>

lemma big_Bytes_zero: "big_Bytes 0 = []"
  by (simp add: big_Bytes.simps)

lemma big_Bytes_pos: "0 < n \<Longrightarrow> big_Bytes n = big_Bytes (n div 256) @ [of_nat (n mod 256)]"
  by (subst big_Bytes.simps) simp

lemma length_hex_EncodeToString: "length (hex_EncodeToString src) = 2 * length src"
  by (induction src) (simp_all add: hex_EncodeToString_def)

lemma length_PublicKeyToAddress:
  "length (PublicKeyToAddress pubKey) =
     2 + 2 * length (big_Bytes (pk_X pubKey)) + 2 * length (big_Bytes (pk_Y pubKey))"
  by (simp add: PublicKeyToAddress_def length_hex_EncodeToString)

lemma length_big_Bytes:
  "256 ^ k \<le> n \<Longrightarrow> n < 256 ^ Suc k \<Longrightarrow> length (big_Bytes n) = Suc k"
proof (induction k arbitrary: n)
  case 0
  then have "0 < n" "n div 256 = 0" by simp_all
  then show ?case by (simp add: big_Bytes_pos big_Bytes_zero)
next
  case (Suc k)
  then have pos: "0 < n"
    by (metis gr0I not_less_zero power_eq_0_iff zero_neq_numeral le_zero_eq)
  from Suc.prems have "256 * 256 ^ k \<le> n" "n < 256 * 256 ^ Suc k"
    by simp_all
  then have "256 ^ k \<le> n div 256" "n div 256 < 256 ^ Suc k"
    by (simp_all add: less_mult_imp_div_less mult.commute less_eq_div_iff_mult_less_eq)
  from Suc.IH [OF this] pos show ?case
    by (simp add: big_Bytes_pos)
qed

lemma fromHexChar_digit:
  "\<forall>k<16. fromHexChar (''0123456789abcdef'' ! k) = Some k"
  by (simp add: numeral_eq_Suc All_less_Suc fromHexChar_def)

lemma hex_roundtrip: "hex_DecodeString (hex_EncodeToString src) = Some src"
proof (induction src)
  case Nil
  show ?case by (simp add: hex_EncodeToString_def)
next
  case (Cons b src)
  have hi: "unat b div 16 < 16"
    using unsigned_less [of b, where ?'a = nat] by (simp add: less_mult_imp_div_less)
  have lo: "unat b mod 16 < 16" by simp
  have "of_nat (unat b div 16 * 16 + unat b mod 16) = b"
    by (simp add: div_mult_mod_eq)
  with Cons fromHexChar_digit hi lo show ?case
    by (simp add: hex_EncodeToString_def)
qed

lemma AddressToPublicKey_PublicKeyToAddress:
  "AddressToPublicKey (PublicKeyToAddress pubKey) =
     (let pubKeyBytes = 4 # big_Bytes (pk_X pubKey) @ big_Bytes (pk_Y pubKey) in
      if length pubKeyBytes \<noteq> 65 then Inl (InvalidPublicKeyLength (length pubKeyBytes))
      else (case ParsePubKey pubKeyBytes of
              None \<Rightarrow> Inl FailedToParsePublicKey
            | Some key \<Rightarrow> Inr key))"
  by (simp add: AddressToPublicKey_def PublicKeyToAddress_def hex_roundtrip Let_def)

lemma SetByteSlice_big_Bytes: "SetByteSlice (big_Bytes n) = n"
proof (induction n rule: less_induct)
  case (less n)
  show ?case
  proof (cases "n = 0")
    case True
    then show ?thesis by (simp add: big_Bytes_zero SetByteSlice_def)
  next
    case False
    then have "SetByteSlice (big_Bytes (n div 256)) = n div 256"
      by (intro less) simp
    moreover have "unat (of_nat (n mod 256) :: byte) = n mod 256"
      by (simp add: unat_of_nat)
    ultimately show ?thesis
      using False by (simp add: big_Bytes_pos SetByteSlice_def)
  qed
qed

text \<open>
  What does hold: for a point of the curve whose two coordinates both need all 32
  bytes, the address has 130 characters and \<open>AddressToPublicKey\<close> returns the key.
\<close>

lemma full_width_key_round_trip:
  assumes "256 ^ 31 \<le> pk_X pubKey" "pk_X pubKey < secp256k1_P"
      and "256 ^ 31 \<le> pk_Y pubKey" "pk_Y pubKey < secp256k1_P"
      and "isOnCurve (pk_X pubKey) (pk_Y pubKey)"
  shows "length (PublicKeyToAddress pubKey) = 130 \<and>
         AddressToPublicKey (PublicKeyToAddress pubKey) = Inr pubKey"
proof -
  have P: "secp256k1_P < 256 ^ Suc 31"
    by (simp add: secp256k1_P_def)
  have x: "length (big_Bytes (pk_X pubKey)) = 32"
    using length_big_Bytes [of 31 "pk_X pubKey"] assms(1,2) P by simp
  have y: "length (big_Bytes (pk_Y pubKey)) = 32"
    using length_big_Bytes [of 31 "pk_Y pubKey"] assms(3,4) P by simp
  have "take 32 (drop 33 (4 # big_Bytes (pk_X pubKey) @ big_Bytes (pk_Y pubKey)))
          = big_Bytes (pk_Y pubKey)"
    using x y by simp
  moreover have "take 32 (drop 1 (4 # big_Bytes (pk_X pubKey) @ big_Bytes (pk_Y pubKey)))
          = big_Bytes (pk_X pubKey)"
    using x y by simp
  ultimately have "ParsePubKey (4 # big_Bytes (pk_X pubKey) @ big_Bytes (pk_Y pubKey)) = Some pubKey"
    using assms(2,4,5) unfolding ParsePubKey_def by (simp add: SetByteSlice_big_Bytes)
  then show ?thesis
    using x y by (simp add: AddressToPublicKey_PublicKeyToAddress length_PublicKeyToAddress)
qed

text \<open>
  Claim C7 says that \<open>PublicKeyToAddress\<close> pads each coordinate to 32 bytes, so that
  every address has 130 hex characters and \<open>AddressToPublicKey\<close> accepts it. The code
  appends \<^verbatim>\<open>pubKey.X.Bytes()\<close> and \<^verbatim>\<open>pubKey.Y.Bytes()\<close> as they are, without the
  padding that \<open>Verify\<close> and \<open>PrivateKeyToHex\<close> of the same file do. The public key
  of the private key 153 is a point of secp256k1 whose X coordinate has 31 bytes: its
  address has 128 characters and \<open>AddressToPublicKey\<close> rejects it.
\<close>

theorem short_X_coordinate_gives_short_address:
  "isOnCurve (pk_X key_153) (pk_Y key_153) \<and>
   pk_X key_153 < secp256k1_P \<and> pk_Y key_153 < secp256k1_P \<and>
   length (big_Bytes (pk_X key_153)) = 31 \<and>
   length (PublicKeyToAddress key_153) = 128 \<and>
   AddressToPublicKey (PublicKeyToAddress key_153) = Inl (InvalidPublicKeyLength 64)"
proof -
  have x: "length (big_Bytes (pk_X key_153)) = 31"
    using length_big_Bytes [of 30 "pk_X key_153"] by (simp add: key_153_def)
  have y: "length (big_Bytes (pk_Y key_153)) = 32"
    using length_big_Bytes [of 31 "pk_Y key_153"] by (simp add: key_153_def)
  have curve: "isOnCurve (pk_X key_153) (pk_Y key_153) \<and>
               pk_X key_153 < secp256k1_P \<and> pk_Y key_153 < secp256k1_P"
    by (simp add: isOnCurve_def secp256k1_P_def key_153_def)
  show ?thesis
    using x y curve
    by (simp add: AddressToPublicKey_PublicKeyToAddress length_PublicKeyToAddress)
qed


section \<open>The gossip handler admits what the HTTP handler rejects\<close>

lemma map_of_put: "map_of (put k v al) = (map_of al)(k \<mapsto> v)"
  by (induction al) (auto simp: fun_eq_iff)

lemma tx_Hash_ignores_id: "tx_Hash H F (tx\<lparr>tx_ID := i\<rparr>) = tx_Hash H F tx"
  by (simp add: tx_Hash_def)

lemma NewCoinbaseTransaction_valid:
  assumes "to \<noteq> []" and "amount \<noteq> 0"
      and "tx_ID (NewCoinbaseTransaction H F now to amount) \<noteq> []"
  shows "tx_Validate H F (NewCoinbaseTransaction H F now to amount) = None"
  using assms
  by (simp add: tx_Validate_def NewCoinbaseTransaction_def IsCoinbase_def Let_def tx_Hash_def)

lemma SetSignature_valid:
  assumes "from \<noteq> []" and "to \<noteq> []" and "amount \<noteq> 0" and "fee \<noteq> 0"
      and "signature \<noteq> []"
      and "tx_ID (SetSignature H F signature (NewTransaction now from to amount fee)) \<noteq> []"
  shows "tx_Validate H F (SetSignature H F signature (NewTransaction now from to amount fee)) = None"
  using assms
  by (simp add: tx_Validate_def SetSignature_def NewTransaction_def IsCoinbase_def Let_def tx_Hash_def)

lemma fresh_node_eq:
  "fresh_node =
    \<lparr>blocks = [NewGenesisBlock zero_hash nanos 0], height = 0,
     utxoSet = [((tx_ID (NewCoinbaseTransaction zero_hash nanos 0 preFundedAddress 1000000), 0),
                 \<lparr>u_TxID = tx_ID (NewCoinbaseTransaction zero_hash nanos 0 preFundedAddress 1000000),
                  u_Address = preFundedAddress, u_Amount = 1000000, u_Index = 0\<rparr>)],
     mempool = []\<rparr>"
  by (simp add: fresh_node_def createGenesisBlock_def NewBlockchain_def NewGenesisBlock_def Let_def
        ApplyTransaction_def IsCoinbase_def AddUTXO_def NewCoinbaseTransaction_def)

text \<open>
  The handler of \<open>new_transaction\<close> calls \<open>AddTransaction\<close> on whatever it decoded: every
  transaction whose id is not in the pool yet is in the pool afterwards.
\<close>

lemma gossip_admits_any_transaction:
  assumes "m_Type msg = ''new_transaction''" and "as_tx msg = Some tx"
      and "map_of (mempool n) (tx_ID tx) = None"
  shows "map_of (mempool (handleMessage H F SaveBlock msg n)) (tx_ID tx) = Some tx"
  using assms by (simp add: handleMessage_def AddTransaction_def map_of_put)

text \<open>
  Claim C3 says that the gossip handler checks the signature and the sender's balance
  before it admits a transaction. On a fresh node, the message \<open>new_transaction\<close> with
  \<open>unsigned_transfer\<close> (sender \<open>C\<close> is no public key, so no signature verifies; \<open>C\<close>
  owns nothing and the transfer needs 2) puts the transaction into the pool. The HTTP
  handler rejects the same transaction on the same node, here with the most permissive
  ECDSA check there is, and \<open>ValidateTransaction\<close> reports the missing balance.
\<close>

theorem gossip_admits_unsigned_unfunded_transaction:
  "mempool (handleMessage zero_hash nanos archive_ok
      \<lparr>m_Type = ''new_transaction'', as_tx = Some unsigned_transfer, as_block = None\<rparr> fresh_node)
     = [(tx_ID unsigned_transfer, unsigned_transfer)] \<and>
   VerifyTransactionSignature zero_hash nanos (\<lambda>data signature pubKey. Inr True) unsigned_transfer
     = Inl (InvalidSenderAddress InvalidAddressHex) \<and>
   ValidateTransaction unsigned_transfer (utxoSet fresh_node) = Some (InsufficientBalance 0 2) \<and>
   handleBroadcastTransaction zero_hash nanos (\<lambda>data signature pubKey. Inr True)
      unsigned_transfer fresh_node = (Some HttpInvalidSignature, fresh_node)"
proof -
  have tx: "unsigned_transfer =
      \<lparr>tx_ID = tx_ID unsigned_transfer, tx_From = ''C'', tx_To = ''D'', tx_Amount = 1,
       tx_Fee = 1, tx_Signature = ''bad'', tx_Timestamp = 7\<rparr>"
    by (simp add: unsigned_transfer_def SetSignature_def NewTransaction_def Let_def)
  have valid: "tx_Validate zero_hash nanos unsigned_transfer = None"
    unfolding unsigned_transfer_def
    by (rule SetSignature_valid)
       (simp_all add: SetSignature_def Let_def tx_Hash_def zero_hash_def)
  have sig: "VerifyTransactionSignature zero_hash nanos (\<lambda>data signature pubKey. Inr True)
               unsigned_transfer = Inl (InvalidSenderAddress InvalidAddressHex)"
    by (subst tx) (simp add: VerifyTransactionSignature_def IsCoinbase_def AddressToPublicKey_def)
  have bal: "ValidateTransaction unsigned_transfer (utxoSet fresh_node)
               = Some (InsufficientBalance 0 2)"
    by (subst tx)
       (simp add: ValidateTransaction_def IsCoinbase_def GetBalance_def GetUTXOsForAddress_def
          Total_def fresh_node_eq preFundedAddress_def)
  have "mempool (handleMessage zero_hash nanos archive_ok
      \<lparr>m_Type = ''new_transaction'', as_tx = Some unsigned_transfer, as_block = None\<rparr> fresh_node)
     = [(tx_ID unsigned_transfer, unsigned_transfer)]"
    by (simp add: handleMessage_def AddTransaction_def fresh_node_eq)
  then show ?thesis
    using sig bal valid by (simp add: handleBroadcastTransaction_def)
qed


section \<open>The genesis block depends on the clock\<close>

lemma BuildMerkleRoot_single: "BuildMerkleRoot H [txID] = txID"
  by (simp add: BuildMerkleRoot_def buildMerkleTree.simps)

text \<open>The part of the claim that holds: every field that does not depend on the coinbase.\<close>

lemma NewGenesisBlock_fixed_fields:
  "b_Index (NewGenesisBlock H F now) = 0 \<and>
   b_Timestamp (NewGenesisBlock H F now) = 1577836800 * 1000000000 \<and>
   b_PreviousHash (NewGenesisBlock H F now) = ''0'' \<and>
   b_Difficulty (NewGenesisBlock H F now) = 1 \<and>
   b_Nonce (NewGenesisBlock H F now) = 0 \<and>
   length (b_Transactions (NewGenesisBlock H F now)) = 1"
  by (simp add: NewGenesisBlock_def Let_def)

lemma NewGenesisBlock_coinbase_id:
  "map tx_ID (b_Transactions (NewGenesisBlock H F now)) =
     [H (preFundedAddress @ dec 1000000 @ dec 45 @ ''coinbase'' @ F now)]"
  by (simp add: NewGenesisBlock_def Let_def NewCoinbaseTransaction_def tx_Hash_def)

lemma NewGenesisBlock_merkle_root:
  "b_MerkleRoot (NewGenesisBlock H F now) =
     H (preFundedAddress @ dec 1000000 @ dec 45 @ ''coinbase'' @ F now)"
  by (simp add: NewGenesisBlock_def Let_def NewCoinbaseTransaction_def tx_Hash_def
        ComputeMerkleRoot_def BuildMerkleRoot_single)

lemma NewGenesisBlock_hash:
  "b_Hash (NewGenesisBlock H F now) =
     H (dec 0 @ F (1577836800 * 1000000000) @ b_MerkleRoot (NewGenesisBlock H F now)
        @ ''0'' @ dec 0 @ dec_int 1)"
  by (simp add: NewGenesisBlock_def Let_def ComputeHash_def)

text \<open>
  With a hash function and a rendering of instants that are both injective, two calls
  that read different instants never give the same Merkle root or the same hash.
\<close>

lemma genesis_depends_on_clock:
  assumes "inj H" and "inj F" and "now1 \<noteq> now2"
  shows "b_MerkleRoot (NewGenesisBlock H F now1) \<noteq> b_MerkleRoot (NewGenesisBlock H F now2) \<and>
         b_Hash (NewGenesisBlock H F now1) \<noteq> b_Hash (NewGenesisBlock H F now2)"
proof -
  have "F now1 \<noteq> F now2"
    using assms(2,3) by (auto dest: injD)
  then have root: "b_MerkleRoot (NewGenesisBlock H F now1) \<noteq> b_MerkleRoot (NewGenesisBlock H F now2)"
    using assms(1) unfolding NewGenesisBlock_merkle_root by (auto dest!: injD)
  then show ?thesis
    using assms(1) unfolding NewGenesisBlock_hash by (auto dest!: injD)
qed

text \<open>
  Claim C4 says that any two calls of \<open>NewGenesisBlock\<close> produce the same block. The
  block's own timestamp is fixed, but its coinbase transaction is made by
  \<open>NewCoinbaseTransaction\<close>, which stamps it with \<^verbatim>\<open>time.Now()\<close>; the timestamp is
  hashed into the transaction id, the id is the Merkle root, and the root is hashed into
  the block hash. Two calls one nanosecond apart give two different genesis blocks.
\<close>

theorem genesis_blocks_of_two_startups_differ:
  "b_Hash (NewGenesisBlock zero_hash nanos 1) \<noteq> b_Hash (NewGenesisBlock zero_hash nanos 2) \<and>
   b_MerkleRoot (NewGenesisBlock zero_hash nanos 1) \<noteq> b_MerkleRoot (NewGenesisBlock zero_hash nanos 2) \<and>
   map tx_ID (b_Transactions (NewGenesisBlock zero_hash nanos 1))
     \<noteq> map tx_ID (b_Transactions (NewGenesisBlock zero_hash nanos 2))"
  by (simp add: NewGenesisBlock_hash NewGenesisBlock_merkle_root NewGenesisBlock_coinbase_id eval_lib)



section \<open>ApplyTransaction and the sender's balance\<close>

lemma select_utxos_short:
  assumes "unat avail + sum_list (map (unat \<circ> u_Amount) utxos) < unat needed"
  shows "fst (select_utxos needed utxos avail spend) < needed"
  using assms
proof (induction utxos arbitrary: avail spend)
  case Nil
  then show ?case by (simp add: word_less_nat_alt)
next
  case (Cons u utxos)
  have bound: "unat needed < 2 ^ 64"
    using unsigned_less [of needed, where ?'a = nat] by simp
  from Cons.prems have small: "unat avail + unat (u_Amount u) < unat needed"
    by simp
  with bound have sum: "unat (avail + u_Amount u) = unat avail + unat (u_Amount u)"
    by (simp add: unat_add_lem [THEN iffD1])
  with small have "\<not> needed \<le> avail + u_Amount u"
    by (simp add: word_le_nat_alt)
  moreover have "fst (select_utxos needed utxos (avail + u_Amount u) (spend @ [u])) < needed"
    using Cons.prems sum by (intro Cons.IH) simp
  ultimately show ?case
    by (simp add: Let_def)
qed

text \<open>
  What holds of claim C6. An error path never changes the set. When the sender's
  outputs add up, without wrapping, to less than \<open>Total\<close>, \<open>ApplyTransaction\<close>
  returns an error; so it does when neither the sender's outputs nor \<open>amount + fee\<close>
  overflow 64 bits and the outputs add up to less than \<open>amount + fee\<close>.
\<close>

lemma ApplyTransaction_error_leaves_set:
  "ApplyTransaction tx us = (Some err, us') \<Longrightarrow> us' = us"
  by (auto simp: ApplyTransaction_def Let_def split: if_splits prod.splits)

lemma ApplyTransaction_below_Total:
  assumes "\<not> IsCoinbase tx"
      and "sum_list (map (unat \<circ> u_Amount) (GetUTXOsForAddress (tx_From tx) us)) < unat (Total tx)"
  shows "\<exists>err. ApplyTransaction tx us = (Some err, us)"
proof -
  from assms(2) have "fst (select_utxos (Total tx) (GetUTXOsForAddress (tx_From tx) us) 0 [])
                        < Total tx"
    by (intro select_utxos_short) simp
  then show ?thesis
    using assms(1) by (auto simp: ApplyTransaction_def Let_def split: prod.splits)
qed

lemma ApplyTransaction_insufficient_balance:
  assumes "\<not> IsCoinbase tx"
      and "sum_list (map (unat \<circ> u_Amount) (GetUTXOsForAddress (tx_From tx) us))
             < unat (tx_Amount tx) + unat (tx_Fee tx)"
      and "unat (tx_Amount tx) + unat (tx_Fee tx) < 2 ^ 64"
  shows "\<exists>err. ApplyTransaction tx us = (Some err, us)"
proof -
  have "unat (Total tx) = unat (tx_Amount tx) + unat (tx_Fee tx)"
    unfolding Total_def using assms(3) by (simp add: unat_add_lem [THEN iffD1])
  with assms(1,2) show ?thesis
    by (intro ApplyTransaction_below_Total) simp_all
qed

text \<open>
  Once outputs of more than \<open>2 ^ 64\<close> in total exist, the balance wraps around too: a
  sender with outputs of 10 and \<open>2 ^ 64 - 8\<close> has the balance 2 for \<open>GetBalance\<close>
  and still pays 5, from the first output.
\<close>

lemma ApplyTransaction_wrapped_balance:
  "GetBalance ''A''
     [((''g'', 0), \<lparr>u_TxID = ''g'', u_Address = ''A'', u_Amount = 10, u_Index = 0\<rparr>),
      ((''h'', 0), \<lparr>u_TxID = ''h'', u_Address = ''A'', u_Amount = 18446744073709551608,
                     u_Index = 0\<rparr>)] = 2 \<and>
   fst (ApplyTransaction
     \<lparr>tx_ID = ''t'', tx_From = ''A'', tx_To = ''B'', tx_Amount = 4, tx_Fee = 1,
      tx_Signature = ''sig'', tx_Timestamp = 0\<rparr>
     [((''g'', 0), \<lparr>u_TxID = ''g'', u_Address = ''A'', u_Amount = 10, u_Index = 0\<rparr>),
      ((''h'', 0), \<lparr>u_TxID = ''h'', u_Address = ''A'', u_Amount = 18446744073709551608,
                     u_Index = 0\<rparr>)]) = None"
proof -
  have "(18446744073709551618 :: uint64) = 2"
    by simp
  then show ?thesis
    by (simp add: GetBalance_def GetUTXOsForAddress_def ApplyTransaction_def IsCoinbase_def
          Total_def Let_def)
qed

lemma uint64_wraps: "(18446744073709551616 :: uint64) = 0"
  by simp

text \<open>
  Claim C6 says that \<open>ApplyTransaction\<close> returns an error and changes nothing whenever
  the sender's balance is less than \<open>amount + fee\<close>. \<open>Total\<close> adds the two \<^verbatim>\<open>uint64\<close>
  without a check: for amount \<open>2 ^ 64 - 1\<close> and fee 1 it returns 0. A sender who owns
  5 then passes both \<open>ValidateTransaction\<close> and \<open>ApplyTransaction\<close>; the recipient
  receives an output of \<open>2 ^ 64 - 1\<close> and the sender a change output of 5.
\<close>

theorem ApplyTransaction_total_overflow_spends_without_balance:
  "sum_list (map (unat \<circ> u_Amount) (GetUTXOsForAddress (tx_From overflowing_transfer) five_coins))
      < unat (tx_Amount overflowing_transfer) + unat (tx_Fee overflowing_transfer) \<and>
   \<not> IsCoinbase overflowing_transfer \<and>
   tx_Validate zero_hash nanos overflowing_transfer = None \<and>
   ValidateTransaction overflowing_transfer five_coins = None \<and>
   ApplyTransaction overflowing_transfer five_coins =
     (None,
      [((tx_ID overflowing_transfer, 0),
        \<lparr>u_TxID = tx_ID overflowing_transfer, u_Address = ''B'',
         u_Amount = 18446744073709551615, u_Index = 0\<rparr>),
       ((tx_ID overflowing_transfer, 1),
        \<lparr>u_TxID = tx_ID overflowing_transfer, u_Address = ''A'', u_Amount = 5, u_Index = 1\<rparr>)])"
proof -
  have tx: "overflowing_transfer =
      \<lparr>tx_ID = tx_ID overflowing_transfer, tx_From = ''A'', tx_To = ''B'',
       tx_Amount = 18446744073709551615, tx_Fee = 1, tx_Signature = ''sig'', tx_Timestamp = 0\<rparr>"
    by (simp add: overflowing_transfer_def SetSignature_def NewTransaction_def Let_def)
  have valid: "tx_Validate zero_hash nanos overflowing_transfer = None"
    unfolding overflowing_transfer_def
    by (rule SetSignature_valid)
       (simp_all add: SetSignature_def Let_def tx_Hash_def zero_hash_def)
  have id: "tx_ID overflowing_transfer \<noteq> ''g''"
    by (simp add: overflowing_transfer_def SetSignature_def Let_def tx_Hash_def zero_hash_def)
  have "ApplyTransaction overflowing_transfer five_coins =
     (None,
      [((tx_ID overflowing_transfer, 0),
        \<lparr>u_TxID = tx_ID overflowing_transfer, u_Address = ''B'',
         u_Amount = 18446744073709551615, u_Index = 0\<rparr>),
       ((tx_ID overflowing_transfer, 1),
        \<lparr>u_TxID = tx_ID overflowing_transfer, u_Address = ''A'', u_Amount = 5, u_Index = 1\<rparr>)])"
    using id
    by (subst tx)
       (simp add: five_coins_def ApplyTransaction_def GetUTXOsForAddress_def IsCoinbase_def
          Total_def RemoveUTXO_def AddUTXO_def uint64_wraps)
  moreover have "ValidateTransaction overflowing_transfer five_coins = None"
    by (subst tx)
       (simp add: five_coins_def ValidateTransaction_def GetUTXOsForAddress_def IsCoinbase_def
          Total_def GetBalance_def uint64_wraps)
  moreover have "sum_list (map (unat \<circ> u_Amount)
                   (GetUTXOsForAddress (tx_From overflowing_transfer) five_coins))
      < unat (tx_Amount overflowing_transfer) + unat (tx_Fee overflowing_transfer)"
    by (subst (1 2 3) tx) (simp add: five_coins_def GetUTXOsForAddress_def)
  moreover have "\<not> IsCoinbase overflowing_transfer"
    by (subst tx) (simp add: IsCoinbase_def)
  ultimately show ?thesis
    using valid by simp
qed


section \<open>What the chain checks when a block is appended\<close>

lemma Validate_SetHash:
  assumes "b_Index b \<noteq> 0" and "ComputeHash H F b \<noteq> []"
      and "b_MerkleRoot b = ComputeMerkleRoot H b"
      and "validate_transactions H F 0 (b_Transactions b) = None"
  shows "Validate H F (SetHash H F b) = None"
  using assms by (simp add: Validate_def SetHash_def ComputeHash_def ComputeMerkleRoot_def)

lemma NewBlock_merkle_root:
  "b_MerkleRoot (NewBlock H now index txs prev d) = ComputeMerkleRoot H (NewBlock H now index txs prev d)"
  by (simp add: NewBlock_def Let_def ComputeMerkleRoot_def)

lemma AddBlock_accepts:
  assumes "ValidateBlock H F bc block = None"
      and "apply_transactions (b_Transactions block) (utxoSet bc) = (None, us)"
  shows "AddBlock H F SaveBlock block bc =
           (SaveBlock block,
            bc\<lparr>utxoSet := us, blocks := blocks bc @ [block], height := height bc + 1\<rparr>)"
  using assms by (simp add: AddBlock_def)

text \<open>
  What an appended block is checked for: its index is the height plus one, and above
  height 0 its previous hash is the hash of the last block.
\<close>

lemma AddBlock_appended:
  assumes "AddBlock H F SaveBlock block bc = (None, bc')"
  shows "blocks bc' = blocks bc @ [block] \<and> height bc' = height bc + 1 \<and>
         b_Index block = height bc + 1 \<and> b_Hash block = ComputeHash H F block \<and>
         (0 < height bc \<longrightarrow> b_PreviousHash block = b_Hash (last (blocks bc)))"
  using assms
  by (auto simp: AddBlock_def ValidateBlock_def Validate_def
           split: option.splits prod.splits if_splits)

text \<open>
  At height 0, which is the chain of the genesis block alone, \<open>ValidateBlock\<close> does not
  compare the previous hash at all: the guard is \<^verbatim>\<open>bc.height > 0\<close>. The hash is never
  compared with the difficulty, at any height.
\<close>

lemma ValidateBlock_at_height_0:
  "height bc = 0 \<Longrightarrow>
   ValidateBlock H F bc block =
     (if b_Index block \<noteq> 1 then Some InvalidBlockIndex else Validate H F block)"
  by (simp add: ValidateBlock_def)

lemma first_block_after_genesis_is_appended:
  assumes "height bc = 0" and "b_Index block = 1" and "Validate H F block = None"
      and "apply_transactions (b_Transactions block) (utxoSet bc) = (None, us)"
  shows "blocks (snd (AddBlock H F SaveBlock block bc)) = blocks bc @ [block]"
  using assms by (simp add: AddBlock_accepts ValidateBlock_at_height_0)

text \<open>
  Claim C2 says that in every reachable state every block above the genesis block names
  the hash of its predecessor and has a hash with as many leading zeros as its
  difficulty. A fresh node that receives \<open>forged_block\<close> in a \<open>new_block\<close> message
  appends it: the chain then holds a block at height 1 whose previous hash is not the
  hash of the genesis block and whose hash has one leading zero where its difficulty is
  4 (\<open>HasValidProofOfWork\<close> is false, \<open>ValidateBlock\<close> of a \<open>ProofOfWork\<close> of
  difficulty 4 rejects it; the handler calls neither).
\<close>

theorem gossip_appends_unlinked_block_without_proof_of_work:
  "blocks (handleMessage zero_hash nanos archive_ok
      \<lparr>m_Type = ''new_block'', as_tx = None, as_block = Some forged_block\<rparr> fresh_node)
     = [NewGenesisBlock zero_hash nanos 0, forged_block] \<and>
   b_Index forged_block = 1 \<and>
   b_PreviousHash forged_block \<noteq> b_Hash (NewGenesisBlock zero_hash nanos 0) \<and>
   b_Difficulty forged_block = 4 \<and>
   b_Hash forged_block = ''015no such block04'' \<and>
   HasValidProofOfWork forged_block = Inr False \<and>
   pow_ValidateBlock zero_hash nanos (NewProofOfWork 4 0) forged_block = Some (DifficultyNotMet 4)"
proof -
  have block: "forged_block =
      \<lparr>b_Index = 1, b_Timestamp = 5, b_Transactions = [], b_Nonce = 0,
       b_PreviousHash = ''no such block'', b_MerkleRoot = [],
       b_Hash = ''015no such block04'', b_Difficulty = 4\<rparr>"
    by (simp add: forged_block_def SetHash_def NewBlock_def Let_def ComputeMerkleRoot_def
          ComputeHash_def eval_lib)
  have "Validate zero_hash nanos forged_block = None"
    unfolding forged_block_def
    by (rule Validate_SetHash)
       (simp_all add: NewBlock_merkle_root,
        simp_all add: NewBlock_def Let_def ComputeHash_def zero_hash_def)
  then have "ValidateBlock zero_hash nanos fresh_node forged_block = None"
    by (simp add: ValidateBlock_at_height_0 fresh_node_eq block)
  moreover have "apply_transactions (b_Transactions forged_block) (utxoSet fresh_node)
                   = (None, utxoSet fresh_node)"
    by (simp add: block)
  ultimately have "AddBlock zero_hash nanos archive_ok forged_block fresh_node =
      (None, fresh_node\<lparr>utxoSet := utxoSet fresh_node,
                         blocks := blocks fresh_node @ [forged_block],
                         height := height fresh_node + 1\<rparr>)"
    by (simp add: AddBlock_accepts archive_ok_def)
  then have appended: "blocks (handleMessage zero_hash nanos archive_ok
      \<lparr>m_Type = ''new_block'', as_tx = None, as_block = Some forged_block\<rparr> fresh_node)
     = [NewGenesisBlock zero_hash nanos 0, forged_block]"
    by (simp add: handleMessage_def fresh_node_eq)
  have link: "b_PreviousHash forged_block \<noteq> b_Hash (NewGenesisBlock zero_hash nanos 0)"
    by (simp add: block NewGenesisBlock_hash zero_hash_def)
  have pow: "HasValidProofOfWork forged_block = Inr False"
    by (subst block) (simp add: HasValidProofOfWork_def eval_nat_numeral)
  have "b_Hash forged_block = ComputeHash zero_hash nanos forged_block"
    by (simp add: forged_block_def SetHash_def ComputeHash_def)
  then have "pow_ValidateBlock zero_hash nanos (NewProofOfWork 4 0) forged_block
               = Some (DifficultyNotMet 4)"
    by (simp add: pow_ValidateBlock_def strings_Repeat_zero NewProofOfWork_def isValidHash_def
          block eval_nat_numeral)
  with appended link pow show ?thesis
    by (simp add: block)
qed


section \<open>MineBlock applies the block twice\<close>

lemma mine_loop_first:
  "isValidHash (ComputeHash H F block) target \<Longrightarrow>
   mine_loop H F target block = Some (SetHash H F block)"
  by (subst mine_loop.simps) (simp add: SetHash_def)

lemma Mine_first_nonce:
  assumes "0 \<le> difficulty pow"
      and "isValidHash (ComputeHash H F block) (replicate (nat (difficulty pow)) CHR ''0'')"
  shows "Mine H F pow block = Some (Inr (SetHash H F block))"
  using assms by (simp add: Mine_def strings_Repeat_zero mine_loop_first)

lemma MineBlock_steps:
  assumes "GetTransactions 100 (mempool node) = Inr txs"
      and "GetLatestBlock node = Some lastBlock"
      and "Mine H F pow
             (NewBlock H now2 (height node + 1)
                (NewCoinbaseTransaction H F now1 minerAddress
                   (50 + fold (\<lambda>tx total. total + tx_Fee tx) txs 0) # txs)
                (b_Hash lastBlock) (difficulty pow)) = Some (Inr newBlock)"
      and "AddBlock H F SaveBlock newBlock node = (None, node')"
  shows "MineBlock H F SaveBlock now1 now2 pow minerAddress node =
           Some (None, node'\<lparr>utxoSet := snd (Update newBlock (utxoSet node')),
                              mempool := fold (\<lambda>tx. RemoveTransaction (tx_ID tx)) txs (mempool node')\<rparr>)"
  using assms by (simp add: MineBlock_def Let_def)

text \<open>
  The two transactions of the mined block, a coinbase of 60 to \<open>M\<close> and a transfer of
  100 with fee 10 from \<open>A\<close> to \<open>B\<close>, applied to a set in which \<open>A\<close> owns one output
  of 1000000, and applied once more to the result.
\<close>

lemma transfer_applied_twice:
  fixes cb T :: Transaction
  assumes ids: "id0 \<noteq> idT" "id0 \<noteq> idc" "idT \<noteq> idc"
      and addrs: "A \<noteq> M" "A \<noteq> B" "B \<noteq> M" "A \<noteq> []"
      and cb: "cb = \<lparr>tx_ID = idc, tx_From = [], tx_To = M, tx_Amount = 60, tx_Fee = 45,
                     tx_Signature = ''coinbase'', tx_Timestamp = t1\<rparr>"
      and T: "T = \<lparr>tx_ID = idT, tx_From = A, tx_To = B, tx_Amount = 100, tx_Fee = 10,
                   tx_Signature = sig, tx_Timestamp = t2\<rparr>"
      and us0: "us0 = [((id0, 0), \<lparr>u_TxID = id0, u_Address = A, u_Amount = 1000000, u_Index = 0\<rparr>)]"
      and us1: "us1 = [((idc, 0), \<lparr>u_TxID = idc, u_Address = M, u_Amount = 60, u_Index = 0\<rparr>),
                       ((idT, 0), \<lparr>u_TxID = idT, u_Address = B, u_Amount = 100, u_Index = 0\<rparr>),
                       ((idT, 1), \<lparr>u_TxID = idT, u_Address = A, u_Amount = 999890, u_Index = 1\<rparr>)]"
      and us2: "us2 = [((idc, 0), \<lparr>u_TxID = idc, u_Address = M, u_Amount = 60, u_Index = 0\<rparr>),
                       ((idT, 0), \<lparr>u_TxID = idT, u_Address = B, u_Amount = 100, u_Index = 0\<rparr>),
                       ((idT, 1), \<lparr>u_TxID = idT, u_Address = A, u_Amount = 999780, u_Index = 1\<rparr>)]"
  shows "apply_transactions [cb, T] us0 = (None, us1)"
    and "apply_transactions [cb, T] us1 = (None, us2)"
  using ids addrs unfolding cb T us0 us1 us2
  by (simp_all add: ApplyTransaction_def IsCoinbase_def AddUTXO_def GetUTXOsForAddress_def Total_def
        RemoveUTXO_def Let_def)

lemma GetTransactions_single: "GetTransactions 100 [(k, tx)] = Inr [tx]"
  by (simp add: GetTransactions_def sort_Slice_def)

text \<open>
  Claim C1 says that after a successful \<open>MineBlock\<close> with one pending transfer of 100
  with fee 10 the recipient owns 100, the miner owns 60 and the sender owns 110 less
  than before: each transaction of the block is applied to the UTXO set once. On the
  node whose pool holds \<open>transfer\<close>, \<open>AddBlock\<close> applies the two transactions of the
  new block, and then \<open>MineBlock\<close> calls \<open>Update\<close> on the same set, which applies them
  again: the second coinbase output replaces the first (the miner owns 60), the second
  output to \<open>B\<close> replaces the first (\<open>B\<close> owns 100), and the sender's change output of
  999890 is spent for a new change output of 999780. The sender has lost 220. After
  \<open>AddBlock\<close> alone, as on the gossip path, the sender has lost 110.
\<close>

theorem MineBlock_applies_transfer_twice:
  "GetBalance preFundedAddress (utxoSet node_with_transfer) = 1000000 \<and>
   map_option (\<lambda>(err, node). (err, GetBalance preFundedAddress (utxoSet node),
                                   GetBalance ''B'' (utxoSet node), GetBalance ''M'' (utxoSet node),
                                   mempool node, blocks node, height node))
     (MineBlock zero_hash nanos archive_ok 8 9 (NewProofOfWork 1 0) ''M'' node_with_transfer)
     = Some (None, 999780, 100, 60, [], [NewGenesisBlock zero_hash nanos 0, mined_block], 1) \<and>
   (case AddBlock zero_hash nanos archive_ok mined_block node_with_transfer of
      (err, node) \<Rightarrow> (err, GetBalance preFundedAddress (utxoSet node),
                         GetBalance ''B'' (utxoSet node), GetBalance ''M'' (utxoSet node)))
     = (None, 999890, 100, 60)"
proof -
  define cb where "cb = NewCoinbaseTransaction zero_hash nanos 8 ''M'' 60"
  define id0 where "id0 = tx_ID (NewCoinbaseTransaction zero_hash nanos 0 preFundedAddress 1000000)"
  define idc where "idc = tx_ID cb"
  define idT where "idT = tx_ID transfer"
  define g where "g = NewGenesisBlock zero_hash nanos 0"
  define nb where "nb = NewBlock zero_hash 9 1 [cb, transfer] (b_Hash g) 1"
  define us0 where "us0 = [((id0, 0::int), \<lparr>u_TxID = id0, u_Address = preFundedAddress,
                                             u_Amount = 1000000, u_Index = 0\<rparr>)]"
  define us1 where "us1 =
     [((idc, 0::int), \<lparr>u_TxID = idc, u_Address = ''M'', u_Amount = 60, u_Index = 0\<rparr>),
      ((idT, 0), \<lparr>u_TxID = idT, u_Address = ''B'', u_Amount = 100, u_Index = 0\<rparr>),
      ((idT, 1), \<lparr>u_TxID = idT, u_Address = preFundedAddress, u_Amount = 999890, u_Index = 1\<rparr>)]"
  define us2 where "us2 =
     [((idc, 0::int), \<lparr>u_TxID = idc, u_Address = ''M'', u_Amount = 60, u_Index = 0\<rparr>),
      ((idT, 0), \<lparr>u_TxID = idT, u_Address = ''B'', u_Amount = 100, u_Index = 0\<rparr>),
      ((idT, 1), \<lparr>u_TxID = idT, u_Address = preFundedAddress, u_Amount = 999780, u_Index = 1\<rparr>)]"
  have addrs: "preFundedAddress \<noteq> ''M''" "preFundedAddress \<noteq> ''B''" "preFundedAddress \<noteq> []"
    by (simp_all add: preFundedAddress_def)
  have ids: "id0 \<noteq> idT" "id0 \<noteq> idc" "idT \<noteq> idc"
    by (simp_all add: id0_def idT_def idc_def cb_def transfer_def SetSignature_def NewTransaction_def
          NewCoinbaseTransaction_def tx_Hash_def Let_def preFundedAddress_def eval_lib)
  have cb: "cb = \<lparr>tx_ID = idc, tx_From = [], tx_To = ''M'', tx_Amount = 60, tx_Fee = 45,
                     tx_Signature = ''coinbase'', tx_Timestamp = 8\<rparr>"
    by (simp add: idc_def cb_def NewCoinbaseTransaction_def Let_def)
  have T: "transfer = \<lparr>tx_ID = idT, tx_From = preFundedAddress, tx_To = ''B'', tx_Amount = 100,
                          tx_Fee = 10, tx_Signature = ''sig'', tx_Timestamp = 3\<rparr>"
    by (simp add: idT_def transfer_def SetSignature_def NewTransaction_def Let_def)
  have node: "node_with_transfer =
               \<lparr>blocks = [g], height = 0, utxoSet = us0, mempool = [(idT, transfer)]\<rparr>"
    by (simp add: node_with_transfer_def fresh_node_eq AddTransaction_def g_def us0_def id0_def idT_def)
  have txs: "GetTransactions 100 (mempool node_with_transfer) = Inr [transfer]"
    by (simp add: node GetTransactions_single)
  have latest: "GetLatestBlock node_with_transfer = Some g"
    by (simp add: node GetLatestBlock_def)
  have fees: "tx_Fee transfer = 10"
    by (simp add: T)
  have mined: "Mine zero_hash nanos (NewProofOfWork 1 0) nb = Some (Inr (SetHash zero_hash nanos nb))"
    by (rule Mine_first_nonce)
       (simp_all add: NewProofOfWork_def ComputeHash_def zero_hash_def isValidHash_def)
  have valid_cb: "tx_Validate zero_hash nanos cb = None"
    unfolding cb_def
    by (rule NewCoinbaseTransaction_valid)
       (simp_all add: NewCoinbaseTransaction_def Let_def tx_Hash_def zero_hash_def)
  have valid_T: "tx_Validate zero_hash nanos transfer = None"
    unfolding transfer_def using addrs(3)
    by (intro SetSignature_valid)
       (simp_all add: SetSignature_def Let_def tx_Hash_def zero_hash_def)
  have "Validate zero_hash nanos (SetHash zero_hash nanos nb) = None"
    by (rule Validate_SetHash)
       (simp_all add: nb_def NewBlock_merkle_root valid_cb valid_T,
        simp_all add: NewBlock_def Let_def ComputeHash_def zero_hash_def valid_cb valid_T)
  then have valid: "ValidateBlock zero_hash nanos node_with_transfer (SetHash zero_hash nanos nb) = None"
    by (simp add: ValidateBlock_def node SetHash_def nb_def NewBlock_def Let_def)
  have once: "apply_transactions [cb, transfer] us0 = (None, us1)"
    using ids addrs cb T us0_def us1_def
    by (intro transfer_applied_twice(1) [where ?us2.0 = us2]) (simp_all add: us2_def)
  have twice: "apply_transactions [cb, transfer] us1 = (None, us2)"
    using ids addrs cb T us0_def us1_def
    by (intro transfer_applied_twice(2) [where ?us0.0 = us0]) (simp_all add: us2_def)
  have txs_nb: "b_Transactions (SetHash zero_hash nanos nb) = [cb, transfer]"
    by (simp add: SetHash_def nb_def NewBlock_def Let_def)
  have added: "AddBlock zero_hash nanos archive_ok (SetHash zero_hash nanos nb) node_with_transfer =
      (None, \<lparr>blocks = [g, SetHash zero_hash nanos nb], height = 1, utxoSet = us1,
               mempool = [(idT, transfer)]\<rparr>)"
    using AddBlock_accepts [OF valid, of us1 archive_ok] once
    by (simp add: txs_nb node archive_ok_def)
  have mined': "Mine zero_hash nanos (NewProofOfWork 1 0)
      (NewBlock zero_hash 9 (height node_with_transfer + 1)
         (NewCoinbaseTransaction zero_hash nanos 8 ''M''
            (50 + fold (\<lambda>tx total. total + tx_Fee tx) [transfer] 0) # [transfer])
         (b_Hash g) (difficulty (NewProofOfWork 1 0))) = Some (Inr (SetHash zero_hash nanos nb))"
    using mined by (simp add: fees nb_def cb_def node NewProofOfWork_def)
  have upd: "Update (SetHash zero_hash nanos nb) us1 = (None, us2)"
    unfolding Update_def txs_nb twice by simp
  have "MineBlock zero_hash nanos archive_ok 8 9 (NewProofOfWork 1 0) ''M'' node_with_transfer =
      Some (None, \<lparr>blocks = [g, SetHash zero_hash nanos nb], height = 1, utxoSet = us2,
                     mempool = []\<rparr>)"
    unfolding MineBlock_steps [OF txs latest mined' added]
    by (simp add: upd RemoveTransaction_def idT_def)
  moreover have "GetBalance preFundedAddress us2 = 999780" "GetBalance ''B'' us2 = 100"
    "GetBalance ''M'' us2 = 60" "GetBalance preFundedAddress us0 = 1000000"
    "GetBalance preFundedAddress us1 = 999890" "GetBalance ''B'' us1 = 100"
    "GetBalance ''M'' us1 = 60"
    using addrs by (simp_all add: us2_def us1_def us0_def GetBalance_def GetUTXOsForAddress_def)
  moreover have "mined_block = SetHash zero_hash nanos nb"
    by (simp add: mined_block_def nb_def cb_def g_def)
  ultimately show ?thesis
    using added by (simp add: node g_def)
qed

end
